theory Spec2Isabelle
  imports Main "HOL-Library.AList"
begin

section \<open>Values, documents and the document store\<close>

text \<open>
  The handlers exchange JSON-like values with their callers and with Firestore.  A string
  is a \<^typ>\<open>string\<close> holding the UTF-8 bytes of the text, which is the form in which
  Firestore stores and orders string fields.  \<open>JTime t\<close> is a Firestore \<open>Timestamp\<close> at
  instant \<open>t\<close>; where a handler returns \<open>ts.toDate().toISOString()\<close> the model keeps
  \<open>JTime t\<close>, the instant that the ISO text denotes.
\<close>

datatype jv =
    JNull
  | JBool bool
  | JNum int
  | JStr string
  | JTime int
  | JArr "jv list"
  | JObj "(string \<times> jv) list"

text \<open>A document (and a request payload) maps field names to values; an absent key is
  JavaScript's \<open>undefined\<close>.\<close>

type_synonym doc = "string \<rightharpoonup> jv"

text \<open>The store: document path and document, in insertion order, keys distinct.\<close>

type_synonym store = "(string \<times> doc) list"

text \<open>JavaScript truthiness of a value that may be \<open>undefined\<close>.\<close>

fun truthy :: "jv option \<Rightarrow> bool" where
  "truthy None = False"
| "truthy (Some JNull) = False"
| "truthy (Some (JBool b)) = b"
| "truthy (Some (JNum n)) = (if n = 0 then False else True)"
| "truthy (Some (JStr s)) = (if s = [] then False else True)"
| "truthy (Some (JTime t)) = True"
| "truthy (Some (JArr xs)) = True"
| "truthy (Some (JObj kvs)) = True"

text \<open>Truthiness of an optional string (\<open>string | undefined\<close>).\<close>

fun truthy_str :: "string option \<Rightarrow> bool" where
  "truthy_str None = False"
| "truthy_str (Some s) = (if s = [] then False else True)"

text \<open>\<open>a || b\<close> where \<open>b\<close> is a defined value.\<close>

definition js_or :: "jv option \<Rightarrow> jv \<Rightarrow> jv" where
  "js_or x dflt = (case x of None \<Rightarrow> dflt | Some v \<Rightarrow> if truthy (Some v) then v else dflt)"

text \<open>\<open>a || b\<close> where \<open>b\<close> may itself be \<open>undefined\<close>.\<close>

definition js_or_undef :: "jv option \<Rightarrow> jv option \<Rightarrow> jv option" where
  "js_or_undef x y = (if truthy x then x else y)"

text \<open>\<open>a === b\<close> for a possibly undefined \<open>a\<close> and a value \<open>b\<close> received as JSON:
  primitives compare by value, two distinct objects (arrays, maps, timestamps) never.\<close>

fun strict_eq :: "jv option \<Rightarrow> jv \<Rightarrow> bool" where
  "strict_eq (Some JNull) JNull = True"
| "strict_eq (Some (JBool a)) (JBool b) = (a = b)"
| "strict_eq (Some (JNum a)) (JNum b) = (a = b)"
| "strict_eq (Some (JStr a)) (JStr b) = (a = b)"
| "strict_eq _ _ = False"

text \<open>\<open>typeof v === 'string'\<close>.\<close>

fun is_string :: "jv option \<Rightarrow> bool" where
  "is_string (Some (JStr s)) = True"
| "is_string _ = False"

text \<open>An optional string as a stored value: \<open>s || null\<close>.\<close>

fun str_or_null :: "string option \<Rightarrow> jv" where
  "str_or_null None = JNull"
| "str_or_null (Some s) = (if s = [] then JNull else JStr s)"

subsection \<open>Store primitives\<close>

text \<open>\<open>ref.get()\<close>: the snapshot's data, \<open>None\<close> when \<open>snap.exists\<close> is false.\<close>

definition docGet :: "store \<Rightarrow> string \<Rightarrow> doc option" where
  "docGet st path = map_of st path"

text \<open>\<open>ref.set(data)\<close>: unconditional write, replacing whatever the path holds.\<close>

definition docSet :: "string \<Rightarrow> doc \<Rightarrow> store \<Rightarrow> store" where
  "docSet path d st = AList.update path d st"

text \<open>\<open>ref.set(data, {merge: true})\<close>: create, or overwrite the given fields.\<close>

definition docSetMerge :: "string \<Rightarrow> doc \<Rightarrow> store \<Rightarrow> store" where
  "docSetMerge path d st =
     (case map_of st path of
        None \<Rightarrow> AList.update path d st
      | Some old \<Rightarrow> AList.update path (old ++ d) st)"

text \<open>\<open>ref.update(fields)\<close> for an object literal of the source, whose keys are plain field
  names (no dot): overwrite the given fields; fails when the document is absent.\<close>

definition docUpdate :: "string \<Rightarrow> doc \<Rightarrow> store \<Rightarrow> store option" where
  "docUpdate path fields st =
     (case map_of st path of
        None \<Rightarrow> None
      | Some old \<Rightarrow> Some (AList.update path (old ++ fields) st))"

subsection \<open>Document references built from request strings\<close>

text \<open>The segments of a slash-separated path.\<close>

fun segments :: "string \<Rightarrow> string \<Rightarrow> string list" where
  "segments acc [] = [rev acc]"
| "segments acc (c # cs) =
     (if c = CHR ''/'' then rev acc # segments [] cs else segments (c # acc) cs)"

fun hasDoubleSlash :: "string \<Rightarrow> bool" where
  "hasDoubleSlash (a # b # cs) =
     (if a = CHR ''/'' \<and> b = CHR ''/'' then True else hasDoubleSlash (b # cs))"
| "hasDoubleSlash cs = False"

text \<open>\<open>db.doc(path)\<close> returns a reference when the path is not empty, has no \<open>//\<close> and its
  non-empty segments are an even number, at least two; otherwise it throws.  The store is
  keyed by the path as the handler writes it.\<close>

definition validDocPath :: "string \<Rightarrow> bool" where
  "validDocPath path =
     (if path = [] then False
      else if hasDoubleSlash path then False
      else (let n = length (filter (\<lambda>s. if s = [] then False else True) (segments [] path))
            in 0 < n \<and> even n))"

definition invalidDocPath :: "string \<Rightarrow> bool" where
  "invalidDocPath path = (if validDocPath path then False else True)"

subsection \<open>Updates whose keys come from the request\<close>

text \<open>A request payload: the entries of the JSON object, in order.  A JSON object has each
  key once; where a list repeats a key, the first entry is the property's value
  (\<open>map_of\<close>).\<close>

type_synonym payload = "(string \<times> jv) list"

text \<open>\<open>ref.update(obj)\<close> reads every key of \<open>obj\<close> as a field path: the key is split at its
  dots, and the value is written at that path, inside the map the path leads through.
  Where the path leads through a field that is not a map, the field becomes a map.\<close>

fun fieldSegments :: "string \<Rightarrow> string \<Rightarrow> string list" where
  "fieldSegments acc [] = [rev acc]"
| "fieldSegments acc (c # cs) =
     (if c = CHR ''.'' then rev acc # fieldSegments [] cs else fieldSegments (c # acc) cs)"


text \<open>The client rejects a key that is empty, contains one of \<open>* ~ / [ ]\<close>, starts or ends
  with a dot or contains two dots in a row (an empty segment).\<close>

definition validFieldPath :: "string \<Rightarrow> bool" where
  "validFieldPath key =
     (list_all (\<lambda>c. c \<notin> set ''*~/[]'') key
      \<and> list_all (\<lambda>s. if s = [] then False else True) (fieldSegments [] key))"

text \<open>The client rejects an update in which one field path is a prefix of another
  (\<open>a\<close> and \<open>a.b\<close>).\<close>

fun isPrefixOf :: "string list \<Rightarrow> string list \<Rightarrow> bool" where
  "isPrefixOf [] q = True"
| "isPrefixOf (x # p) [] = False"
| "isPrefixOf (x # p) (y # q) = (if x = y then isPrefixOf p q else False)"

fun conflictingFields :: "string list list \<Rightarrow> bool" where
  "conflictingFields [] = False"
| "conflictingFields (p # ps) =
     (if list_ex (\<lambda>q. isPrefixOf p q \<or> isPrefixOf q p) ps then True else conflictingFields ps)"

text \<open>Writing a value at a path inside a nested map, and inside a document.\<close>

fun setPath :: "string list \<Rightarrow> jv \<Rightarrow> (string \<times> jv) list \<Rightarrow> (string \<times> jv) list" where
  "setPath [] v m = m"
| "setPath [k] v m = AList.update k v m"
| "setPath (k # k' # ks) v m =
     AList.update k
       (JObj (setPath (k' # ks) v (case map_of m k of Some (JObj sub) \<Rightarrow> sub | _ \<Rightarrow> []))) m"

definition setField :: "string list \<Rightarrow> jv \<Rightarrow> doc \<Rightarrow> doc" where
  "setField path v d =
     (case path of
        [] \<Rightarrow> d
      | [k] \<Rightarrow> d(k \<mapsto> v)
      | k # rest \<Rightarrow>
          d(k \<mapsto> JObj (setPath rest v (case d k of Some (JObj sub) \<Rightarrow> sub | _ \<Rightarrow> []))))"

definition applyUpdate :: "payload \<Rightarrow> doc \<Rightarrow> doc" where
  "applyUpdate fields d = fold (\<lambda>e. setField (fieldSegments [] (fst e)) (snd e)) fields d"

text \<open>\<open>ref.update(obj)\<close> for an object whose keys come from the request.  It throws, and
  writes nothing, when the object is empty, when a key is not a valid field path, when two
  field paths conflict, or when the document is absent.  Rejections that depend on the
  values (nesting beyond the depth limit, field names reserved by the server) are not
  modelled.\<close>

definition docUpdateFields :: "string \<Rightarrow> payload \<Rightarrow> store \<Rightarrow> store option" where
  "docUpdateFields path fields st =
     (if fields = [] then None
      else if list_all validFieldPath (map fst fields) then
        (if conflictingFields (map (fieldSegments []) (map fst fields)) then None
         else (case map_of st path of
                 None \<Rightarrow> None
               | Some old \<Rightarrow> Some (AList.update path (applyUpdate fields old) st)))
      else None)"

subsection \<open>Errors, callers and the world\<close>

datatype https_code = Unauthenticated | PermissionDenied | NotFound | InvalidArgument | Internal

text \<open>\<open>new HttpsError(code, message)\<close>; the optional third argument (details) is left out.\<close>

datatype https_error = HttpsError https_code string

record auth_token =
  tok_email :: "string option"
  tok_name :: "string option"
  tok_picture :: "string option"

record auth_ctx =
  auth_uid :: string
  token :: auth_token

text \<open>The world a handler runs in: the Firestore documents and the lines the handlers
  write with \<open>console.error\<close> (each recorded by its fixed first argument).  Informational
  \<open>console.log\<close> lines are not recorded.  An error that is not an \<open>HttpsError\<close> and
  escapes a handler reaches the caller as \<open>HttpsError('internal', 'INTERNAL')\<close>, which is
  how \<open>onCall\<close> reports it.\<close>

record world =
  db :: store
  errlog :: "string list"

definition console_error :: "string \<Rightarrow> world \<Rightarrow> world" where
  "console_error msg w = w\<lparr>errlog := errlog w @ [msg]\<rparr>"

text \<open>The identity provider (\<open>authAdmin\<close>), an external collaborator.
  \<open>getUserByEmail\<close> returns the uid, or the code of the error it throws;
  \<open>updateUser\<close> returns \<open>None\<close> on success, or the code of the error it throws.\<close>

record auth_admin =
  getUserByEmail :: "string \<Rightarrow> string + string"
  updateUser :: "string \<Rightarrow> doc \<Rightarrow> string option"

section \<open>utils/firebaseAdmin.ts\<close>

definition getUserProfilePath :: "string \<Rightarrow> string \<Rightarrow> string" where
  "getUserProfilePath appId userId = ''artifacts/'' @ appId @ ''/users/'' @ userId @ ''/profile/data''"

definition getSalonsCollectionPath :: "string \<Rightarrow> string" where
  "getSalonsCollectionPath appId = ''artifacts/'' @ appId @ ''/public/data/salons''"

text \<open>\<open>process.env.FIREBASE_APP_ID || 'default-app-id'\<close>, as the salon handlers,
  \<open>searchUsersByEmail\<close>, \<open>getAuthUserProfile\<close> and \<open>updateAuthUserProfile\<close> compute it.\<close>

definition envAppId :: "string option \<Rightarrow> string" where
  "envAppId env = (if truthy_str env then (case env of Some s \<Rightarrow> s | None \<Rightarrow> ''default-app-id'') else ''default-app-id'')"

text \<open>The literal that \<open>ensureUserProfile\<close> and \<open>getAllUserProfiles\<close> assign to \<open>appId\<close>.\<close>

definition hardcodedAppId :: string where
  "hardcodedAppId = ''1:514813479729:web:4a0ec92280f130e8b63e10''"

definition assertAdmin :: "auth_ctx option \<Rightarrow> string \<Rightarrow> store \<Rightarrow> https_error + unit" where
  "assertAdmin auth appId st =
     (case auth of
        None \<Rightarrow> Inl (HttpsError Unauthenticated ''The function must be called while authenticated.'')
      | Some a \<Rightarrow>
          (case docGet st (getUserProfilePath appId (auth_uid a)) of
             None \<Rightarrow> Inl (HttpsError PermissionDenied ''User profile not found.'')
           | Some d \<Rightarrow>
               if d ''role'' = Some (JStr ''admin'') then Inr ()
               else Inl (HttpsError PermissionDenied ''Only administrators can perform this action.'')))"

section \<open>users/ensureUserProfile.ts\<close>

text \<open>\<open>v.toDate()\<close>: defined on a Timestamp, a TypeError on anything else.\<close>

fun toDate :: "jv option \<Rightarrow> int option" where
  "toDate (Some (JTime t)) = Some t"
| "toDate _ = None"

text \<open>The object literal \<open>newUserProfile\<close>, with both \<open>serverTimestamp()\<close> sentinels
  resolved to the commit time \<open>now\<close> of the single write that carries them.\<close>

definition newUserProfile :: "auth_ctx \<Rightarrow> int \<Rightarrow> doc" where
  "newUserProfile a now = map_of
     [(''uid'', JStr (auth_uid a)),
      (''displayName'', (if truthy_str (tok_name (token a))
                          then str_or_null (tok_name (token a)) else JStr ''New User'')),
      (''email'', str_or_null (tok_email (token a))),
      (''photoURL'', str_or_null (tok_picture (token a))),
      (''phoneNumber'', JNull),
      (''createdAt'', JTime now),
      (''lastLoginAt'', JTime now),
      (''role'', JStr ''customer''),
      (''ownedSalons'', JArr []),
      (''associatedSalons'', JArr []),
      (''favoriteSalons'', JArr []),
      (''address'', JNull)]"

text \<open>The value returned for an existing profile \<open>d\<close> (re-read after the update), given the
  instants of its three timestamps.\<close>

definition existingProfileResult :: "doc \<Rightarrow> int \<Rightarrow> int \<Rightarrow> int option \<Rightarrow> doc" where
  "existingProfileResult d c l u =
     (Map.empty
        (''uid'' := d ''uid'',
         ''email'' := d ''email'',
         ''displayName'' := d ''displayName'',
         ''photoURL'' := d ''photoURL'',
         ''phoneNumber'' \<mapsto> js_or (d ''phoneNumber'') JNull,
         ''createdAt'' \<mapsto> JTime c,
         ''lastLoginAt'' \<mapsto> JTime l,
         ''updatedAt'' := map_option JTime u,
         ''role'' := d ''role'',
         ''ownedSalons'' \<mapsto> js_or (d ''ownedSalons'') (JArr []),
         ''associatedSalons'' \<mapsto> js_or (d ''associatedSalons'') (JArr []),
         ''favoriteSalons'' \<mapsto> js_or (d ''favoriteSalons'') (JArr []),
         ''address'' \<mapsto> js_or (d ''address'') JNull))"

text \<open>The body of the handler's \<open>try\<close> block from the point where \<open>docSnap\<close> has been
  read: \<open>snapExists\<close> is \<open>docSnap.exists\<close>, and the writes go to the store as it is when
  they are issued.  \<open>now\<close> is the server time of the write; \<open>d1\<close> and \<open>d2\<close> are the two
  readings of \<open>new Date()\<close> in the creation branch.\<close>

definition ensureUserProfile_write ::
  "auth_ctx \<Rightarrow> bool \<Rightarrow> int \<Rightarrow> int \<Rightarrow> int \<Rightarrow> world \<Rightarrow> (https_error + doc) \<times> world" where
  "ensureUserProfile_write a snapExists now d1 d2 w =
     (let userProfileRef = getUserProfilePath hardcodedAppId (auth_uid a);
          failed = HttpsError Internal ''Failed to set up user profile.'';
          logged = ''Error in ensureUserProfile Cloud Function:''
      in
      if snapExists then
        (case docUpdate userProfileRef (map_of [(''lastLoginAt'', JTime now)]) (db w) of
           None \<Rightarrow> (Inl failed, console_error logged w)
         | Some st \<Rightarrow>
             (case docGet st userProfileRef of
                None \<Rightarrow> (Inl failed, console_error logged (w\<lparr>db := st\<rparr>))
              | Some updatedProfileData \<Rightarrow>
                  (case toDate (updatedProfileData ''createdAt'') of
                     None \<Rightarrow> (Inl failed, console_error logged (w\<lparr>db := st\<rparr>))
                   | Some c \<Rightarrow>
                       (case toDate (updatedProfileData ''lastLoginAt'') of
                          None \<Rightarrow> (Inl failed, console_error logged (w\<lparr>db := st\<rparr>))
                        | Some l \<Rightarrow>
                            if truthy (updatedProfileData ''updatedAt'') then
                              (case toDate (updatedProfileData ''updatedAt'') of
                                 None \<Rightarrow> (Inl failed, console_error logged (w\<lparr>db := st\<rparr>))
                               | Some u \<Rightarrow>
                                   (Inr (existingProfileResult updatedProfileData c l (Some u)),
                                    w\<lparr>db := st\<rparr>))
                            else
                              (Inr (existingProfileResult updatedProfileData c l None),
                               w\<lparr>db := st\<rparr>)))))
      else
        (Inr ((newUserProfile a now)(''createdAt'' \<mapsto> JTime d1, ''lastLoginAt'' \<mapsto> JTime d2)),
         w\<lparr>db := docSet userProfileRef (newUserProfile a now) (db w)\<rparr>))"

definition ensureUserProfile ::
  "auth_ctx option \<Rightarrow> int \<Rightarrow> int \<Rightarrow> int \<Rightarrow> world \<Rightarrow> (https_error + doc) \<times> world" where
  "ensureUserProfile auth now d1 d2 w =
     (case auth of
        None \<Rightarrow>
          (Inl (HttpsError Unauthenticated ''The function must be called while authenticated.''),
           console_error ''ensureUserProfile: Unauthenticated request.'' w)
      | Some a \<Rightarrow>
          if hardcodedAppId = [] then
            (Inl (HttpsError Internal ''FIREBASE_APP_ID environment variable is not set or is empty.''), w)
          else
            (case docGet (db w) (getUserProfilePath hardcodedAppId (auth_uid a)) of
               None \<Rightarrow> ensureUserProfile_write a False now d1 d2 w
             | Some d \<Rightarrow> ensureUserProfile_write a True now d1 d2 w))"


section \<open>users/updateAuthUserProfile.ts and users/getAuthUserProfile.ts\<close>

text \<open>The inline admin test of both handlers: true when
  \<open>!callerProfileSnap.exists || callerProfileSnap.data()?.role !== 'admin'\<close>.\<close>

definition callerNotAdmin :: "store \<Rightarrow> string \<Rightarrow> string \<Rightarrow> bool" where
  "callerNotAdmin st appId callerUid =
     (case docGet st (getUserProfilePath appId callerUid) of
        None \<Rightarrow> True
      | Some d \<Rightarrow> if d ''role'' = Some (JStr ''admin'') then False else True)"

text \<open>\<open>targetUid || callerUid\<close>, for a \<open>targetUid\<close> of its declared type
  \<open>string | undefined\<close>; a truthy value of another type is outside the model.\<close>

definition uidOrCaller :: "jv option \<Rightarrow> string \<Rightarrow> string" where
  "uidOrCaller targetUid callerUid =
     (case targetUid of
        Some (JStr s) \<Rightarrow> if s = [] then callerUid else s
      | _ \<Rightarrow> callerUid)"

text \<open>The requests on which \<open>uidOrCaller\<close> is what the source computes: \<open>targetUid\<close> is a
  string, or is falsy (absent in particular).\<close>

definition targetUidTyped :: "payload \<Rightarrow> bool" where
  "targetUidTyped data =
     (if is_string (map_of data ''targetUid'') then True
      else if truthy (map_of data ''targetUid'') then False else True)"

text \<open>\<open>finalUpdates\<close> as passed to \<open>userProfileRef.update\<close>: the properties of the request
  data without \<open>targetUid\<close> and \<open>role\<close>, then \<open>role\<close> when it was supplied, then
  \<open>updatedAt\<close>.\<close>

definition finalUpdates :: "payload \<Rightarrow> int \<Rightarrow> payload" where
  "finalUpdates data now =
     AList.update ''updatedAt'' (JTime now)
       (case map_of data ''role'' of
          None \<Rightarrow> AList.delete ''targetUid'' (AList.delete ''role'' (AList.clearjunk data))
        | Some role \<Rightarrow>
            AList.update ''role'' role
              (AList.delete ''targetUid'' (AList.delete ''role'' (AList.clearjunk data))))"

text \<open>\<open>authUpdate\<close>: the truthy ones of the properties \<open>displayName\<close> and \<open>photoURL\<close>.\<close>

definition authUpdate :: "doc \<Rightarrow> doc" where
  "authUpdate fu =
     (Map.empty
        (''displayName'' := (if truthy (fu ''displayName'') then fu ''displayName'' else None),
         ''photoURL'' := (if truthy (fu ''photoURL'') then fu ''photoURL'' else None)))"

text \<open>The \<open>try\<close> block of lines 65 to 80, entered with \<open>finalUpdates\<close> built: the store
  update, and then the mirror to the identity provider when \<open>displayName\<close> or \<open>photoURL\<close>
  is truthy.  Whatever throws inside the block is caught, logged and rethrown as
  \<open>internal\<close>; a write already made stays.\<close>

definition updateAuthUserProfile_try ::
  "string \<Rightarrow> string \<Rightarrow> payload \<Rightarrow> auth_admin \<Rightarrow> world \<Rightarrow> (https_error + string) \<times> world" where
  "updateAuthUserProfile_try userProfileRef uidToUpdate fu authAdmin w =
     (let failed = HttpsError Internal ''Failed to update user profile.'';
          logged = ''Error updating user profile in Cloud Function:''
      in
      case docUpdateFields userProfileRef fu (db w) of
        None \<Rightarrow> (Inl failed, console_error logged w)
      | Some st \<Rightarrow>
          if truthy (map_of fu ''displayName'') \<or> truthy (map_of fu ''photoURL'') then
            (case updateUser authAdmin uidToUpdate (authUpdate (map_of fu)) of
               None \<Rightarrow> (Inr ''User profile updated successfully!'', w\<lparr>db := st\<rparr>)
             | Some code \<Rightarrow> (Inl failed, console_error logged (w\<lparr>db := st\<rparr>)))
          else (Inr ''User profile updated successfully!'', w\<lparr>db := st\<rparr>))"

text \<open>The two calls of \<open>db.doc\<close> (lines 26 and 38) stand outside the \<open>try\<close> block; line 49
  builds the caller's reference again, after line 26 or line 38 has accepted the same
  path.\<close>

definition updateAuthUserProfile ::
  "auth_ctx option \<Rightarrow> payload \<Rightarrow> string option \<Rightarrow> auth_admin \<Rightarrow> int \<Rightarrow> world
     \<Rightarrow> (https_error + string) \<times> world" where
  "updateAuthUserProfile auth data env authAdmin now w =
     (case auth of
        None \<Rightarrow>
          (Inl (HttpsError Unauthenticated ''The function must be called while authenticated.''), w)
      | Some a \<Rightarrow>
          (let callerUid = auth_uid a;
               uidToUpdate = uidOrCaller (map_of data ''targetUid'') callerUid;
               appId = envAppId env;
               userProfileRef = getUserProfilePath appId uidToUpdate;
               callerProfileRef = getUserProfilePath appId callerUid
           in
           if invalidDocPath userProfileRef then (Inl (HttpsError Internal ''INTERNAL''), w)
           else
           case docGet (db w) userProfileRef of
             None \<Rightarrow> (Inl (HttpsError NotFound ''Target user profile not found.''), w)
           | Some currentProfile \<Rightarrow>
               if callerUid \<noteq> uidToUpdate \<and> invalidDocPath callerProfileRef then
                 (Inl (HttpsError Internal ''INTERNAL''), w)
               else if callerUid \<noteq> uidToUpdate \<and> callerNotAdmin (db w) appId callerUid then
                 (Inl (HttpsError PermissionDenied
                         ''You do not have permission to update other user profiles.''), w)
               else if
                 (case map_of data ''role'' of
                    None \<Rightarrow> False
                  | Some role \<Rightarrow>
                      if callerUid = uidToUpdate then
                        (if strict_eq (currentProfile ''role'') role then False
                         else callerNotAdmin (db w) appId callerUid)
                      else callerNotAdmin (db w) appId callerUid)
               then
                 (Inl (HttpsError PermissionDenied ''Only administrators can change user roles.''), w)
               else if
                 (case map_of data ''photoURL'' of
                    None \<Rightarrow> False
                  | Some v \<Rightarrow> if is_string (Some v) then False else if v = JNull then False else True)
               then
                 (Inl (HttpsError InvalidArgument ''photoURL must be a string URL or null.''), w)
               else
                 updateAuthUserProfile_try userProfileRef uidToUpdate (finalUpdates data now)
                   authAdmin w))"

text \<open>\<open>uid\<close> is \<open>request.data.uid\<close>; \<open>d\<close> is the reading of \<open>new Date()\<close> used when the
  stored \<open>createdAt\<close> is falsy.  The caller's reference (line 30) is built outside the
  \<open>try\<close> block, the target's reference (line 38) inside it.\<close>

definition getAuthUserProfile ::
  "auth_ctx option \<Rightarrow> jv option \<Rightarrow> string option \<Rightarrow> int \<Rightarrow> world
     \<Rightarrow> (https_error + doc option) \<times> world" where
  "getAuthUserProfile auth uid env d w =
     (case auth of
        None \<Rightarrow>
          (Inl (HttpsError Unauthenticated ''The function must be called while authenticated.''), w)
      | Some a \<Rightarrow>
          (let callerUid = auth_uid a;
               targetUid = uidOrCaller uid callerUid;
               appId = envAppId env
           in
           if callerUid \<noteq> targetUid \<and> invalidDocPath (getUserProfilePath appId callerUid) then
             (Inl (HttpsError Internal ''INTERNAL''), w)
           else if callerUid \<noteq> targetUid \<and> callerNotAdmin (db w) appId callerUid then
             (Inl (HttpsError PermissionDenied
                     ''You do not have permission to fetch other user profiles.''), w)
           else if invalidDocPath (getUserProfilePath appId targetUid) then
             (Inl (HttpsError Internal ''Failed to fetch user profile.''),
              console_error ''Error fetching user profile in Cloud Function:'' w)
           else
             (case docGet (db w) (getUserProfilePath appId targetUid) of
                None \<Rightarrow> (Inr None, w)
              | Some profileData \<Rightarrow>
                  if truthy (profileData ''createdAt'') then
                    (case toDate (profileData ''createdAt'') of
                       None \<Rightarrow>
                         (Inl (HttpsError Internal ''Failed to fetch user profile.''),
                          console_error ''Error fetching user profile in Cloud Function:'' w)
                     | Some c \<Rightarrow> (Inr (Some (profileData(''createdAt'' \<mapsto> JTime c))), w))
                  else (Inr (Some (profileData(''createdAt'' \<mapsto> JTime d))), w))))"

section \<open>salons/addSalon.ts and salons/updateSalon.ts\<close>

fun falsy :: "jv option \<Rightarrow> bool" where
  "falsy x = (if truthy x then False else True)"

fun falsy_str :: "string option \<Rightarrow> bool" where
  "falsy_str x = (if truthy_str x then False else True)"

text \<open>The string held by a variable of type \<open>string | undefined\<close> that is known to be
  truthy where it is read.\<close>

fun str_val :: "string option \<Rightarrow> string" where
  "str_val None = []"
| "str_val (Some s) = s"

record AddSalonData =
  as_name :: "string option"
  as_address :: "jv option"
  as_description :: "string option"
  as_ownerEmail :: "string option"

text \<open>\<open>newId\<close> is the identifier that \<open>collection.add\<close> generates; \<open>add\<close> creates the
  document and fails if the path is taken.\<close>

definition addSalon ::
  "auth_ctx option \<Rightarrow> AddSalonData \<Rightarrow> string option \<Rightarrow> string \<Rightarrow> int \<Rightarrow> world
     \<Rightarrow> (https_error + string \<times> string) \<times> world" where
  "addSalon auth data env newId now w =
     (let appId = envAppId env in
      case assertAdmin auth appId (db w) of
        Inl e \<Rightarrow> (Inl e, w)
      | Inr u \<Rightarrow>
          if falsy_str (as_name data) \<or> falsy (as_address data)
             \<or> falsy_str (as_description data) \<or> falsy_str (as_ownerEmail data)
          then (Inl (HttpsError InvalidArgument ''Missing required salon fields or owner email.''), w)
          else
            (let ownerIdentifier = str_val (as_ownerEmail data);
                 newSalonRef = getSalonsCollectionPath appId @ ''/'' @ newId
             in
             case docGet (db w) newSalonRef of
               Some existing \<Rightarrow>
                 (Inl (HttpsError Internal ''Failed to add salon.''),
                  console_error ''Error adding salon in Cloud Function:'' w)
             | None \<Rightarrow>
                 (Inr (newId, ''Salon added successfully!''),
                  w\<lparr>db := docSet newSalonRef
                     (Map.empty
                        (''name'' \<mapsto> JStr (str_val (as_name data)),
                         ''address'' := as_address data,
                         ''description'' \<mapsto> JStr (str_val (as_description data)),
                         ''ownerId'' \<mapsto> JStr ownerIdentifier,
                         ''createdAt'' \<mapsto> JTime now,
                         ''updatedAt'' \<mapsto> JTime now))
                     (db w)\<rparr>)))"

record UpdateSalonData =
  us_id :: "string option"
  us_name :: "string option"
  us_address :: "jv option"
  us_description :: "string option"
  us_ownerEmail :: "string option"

text \<open>Lines 24 to 36: \<open>ownerId\<close>, or the error thrown by the \<open>catch\<close> of the lookup.\<close>

definition lookupOwner :: "auth_admin \<Rightarrow> string option \<Rightarrow> https_error + string option" where
  "lookupOwner authAdmin ownerEmail =
     (if truthy_str ownerEmail then
        (case getUserByEmail authAdmin (str_val ownerEmail) of
           Inr uid \<Rightarrow> Inr (Some uid)
         | Inl code \<Rightarrow>
             if code = ''auth/user-not-found'' then
               Inl (HttpsError NotFound
                      (''User with email '' @ str_val ownerEmail
                         @ '' not found. Please ensure the user exists.''))
             else Inl (HttpsError Internal ''Failed to verify new owner email.''))
      else Inr None)"

text \<open>Lines 49 to 61: the new owner's profile is read and then promoted or created.
  \<open>now\<close> is the server time of the write that creates the profile.\<close>

definition ownerProfileStep :: "string \<Rightarrow> string \<Rightarrow> string option \<Rightarrow> int \<Rightarrow> store \<Rightarrow> store option" where
  "ownerProfileStep appId ownerId ownerEmail now st =
     (let newOwnerProfileRef = getUserProfilePath appId ownerId in
      case docGet st newOwnerProfileRef of
        Some d \<Rightarrow>
          if d ''role'' = Some (JStr ''user'') then
            docUpdate newOwnerProfileRef (map_of [(''role'', JStr ''salon'')]) st
          else Some st
      | None \<Rightarrow>
          Some (docSetMerge newOwnerProfileRef
                  (map_of [(''email'', JStr (str_val ownerEmail)),
                           (''role'', JStr ''salon''),
                           (''createdAt'', JTime now)])
                  st))"

text \<open>\<open>updateData\<close> as passed to \<open>salonDocRef.update\<close>; \<open>now\<close> is the server time of that
  write.\<close>

definition updateData :: "UpdateSalonData \<Rightarrow> string option \<Rightarrow> int \<Rightarrow> doc" where
  "updateData data ownerId now =
     (Map.empty
        (''updatedAt'' \<mapsto> JTime now,
         ''name'' := (if truthy_str (us_name data) then Some (JStr (str_val (us_name data))) else None),
         ''address'' := (if truthy (us_address data) then us_address data else None),
         ''description'' :=
            (if truthy_str (us_description data) then Some (JStr (str_val (us_description data)))
             else None),
         ''ownerId'' := (if truthy_str ownerId then Some (JStr (str_val ownerId)) else None)))"

text \<open>The \<open>try\<close> block of lines 38 to 69, entered with \<open>ownerId\<close> resolved.  Its first
  statement builds the salon's reference from the request's \<open>id\<close>.  \<open>nowP\<close> and \<open>nowS\<close> are
  the server times of the profile write and of the salon write; whatever throws inside the
  block is caught, logged and rethrown as \<open>internal\<close>, and the writes already made stay.\<close>

definition updateSalon_try ::
  "string \<Rightarrow> UpdateSalonData \<Rightarrow> string option \<Rightarrow> int \<Rightarrow> int \<Rightarrow> world
     \<Rightarrow> (https_error + string) \<times> world" where
  "updateSalon_try appId data ownerId nowP nowS w =
     (let salonDocRef = getSalonsCollectionPath appId @ ''/'' @ str_val (us_id data);
          failed = HttpsError Internal ''Failed to update salon.'';
          logged = ''Error updating salon in Cloud Function:''
      in
      if invalidDocPath salonDocRef then (Inl failed, console_error logged w)
      else
      case (if truthy_str ownerId
            then ownerProfileStep appId (str_val ownerId) (us_ownerEmail data) nowP (db w)
            else Some (db w)) of
        None \<Rightarrow> (Inl failed, console_error logged w)
      | Some st1 \<Rightarrow>
          (case docUpdate salonDocRef (updateData data ownerId nowS) st1 of
             None \<Rightarrow> (Inl failed, console_error logged (w\<lparr>db := st1\<rparr>))
           | Some st2 \<Rightarrow> (Inr ''Salon updated successfully!'', w\<lparr>db := st2\<rparr>)))"

definition updateSalon ::
  "auth_ctx option \<Rightarrow> UpdateSalonData \<Rightarrow> string option \<Rightarrow> auth_admin \<Rightarrow> int \<Rightarrow> int \<Rightarrow> world
     \<Rightarrow> (https_error + string) \<times> world" where
  "updateSalon auth data env authAdmin nowP nowS w =
     (let appId = envAppId env in
      case assertAdmin auth appId (db w) of
        Inl e \<Rightarrow> (Inl e, w)
      | Inr u \<Rightarrow>
          if falsy_str (us_id data)
             \<or> (falsy_str (us_name data) \<and> falsy (us_address data)
                  \<and> falsy_str (us_description data) \<and> falsy_str (us_ownerEmail data))
          then (Inl (HttpsError InvalidArgument ''Missing salon ID or update fields.''), w)
          else
            (case lookupOwner authAdmin (us_ownerEmail data) of
               Inl e \<Rightarrow> (Inl e, console_error ''Error looking up new owner by email:'' w)
             | Inr ownerId \<Rightarrow> updateSalon_try appId data ownerId nowP nowS w))"

section \<open>users/searchUsers.ts and users/getAllUserProfiles.ts\<close>

text \<open>\<open>s.length\<close>: the number of UTF-16 code units of the text whose UTF-8 bytes are
  \<open>s\<close>.  A continuation byte adds nothing, the lead byte of a four-byte sequence (a code
  point beyond the basic plane) counts two, every other byte one.\<close>

definition utf16_units :: "char \<Rightarrow> nat" where
  "utf16_units c =
     (if (128::nat) \<le> of_char c \<and> of_char c < (192::nat) then 0
      else if (240::nat) \<le> of_char c then 2 else 1)"

definition js_length :: "string \<Rightarrow> nat" where
  "js_length s = sum_list (map utf16_units s)"

text \<open>The UTF-8 bytes of the code point U+F8FF, the bound appended to the search term.\<close>

definition sentinel :: string where
  "sentinel = [char_of (239::nat), char_of (163::nat), char_of (191::nat)]"

text \<open>Firestore's order on strings: bytewise lexicographic.\<close>

fun str_le :: "string \<Rightarrow> string \<Rightarrow> bool" where
  "str_le [] ys = True"
| "str_le (x # xs) [] = False"
| "str_le (x # xs) (y # ys) =
     (if x = y then str_le xs ys else (of_char x :: nat) < of_char y)"

text \<open>Membership of a document path in a collection group: its parent collection has the
  given id.\<close>

definition inCollectionGroup :: "string \<Rightarrow> string \<Rightarrow> bool" where
  "inCollectionGroup cid path =
     (case rev (segments [] path) of
        docId # coll # rest \<Rightarrow> coll = cid
      | _ \<Rightarrow> False)"

definition collectionGroup :: "string \<Rightarrow> store \<Rightarrow> store" where
  "collectionGroup cid st = filter (\<lambda>e. inCollectionGroup cid (fst e)) st"

text \<open>\<open>.where('email', '>=', lo).where('email', '<=', hi)\<close>: only string-valued
  \<open>email\<close> fields are compared with a string bound.  The collection-group index that the
  source's comment asks for is taken to exist.\<close>

definition emailInRange :: "string \<Rightarrow> string \<Rightarrow> doc \<Rightarrow> bool" where
  "emailInRange lo hi d =
     (case d ''email'' of
        Some (JStr e) \<Rightarrow> str_le lo e \<and> str_le e hi
      | _ \<Rightarrow> False)"

text \<open>The query's result order: by \<open>email\<close>, then by document path.\<close>

definition emailKey :: "doc \<Rightarrow> string" where
  "emailKey d = (case d ''email'' of Some (JStr e) \<Rightarrow> e | _ \<Rightarrow> [])"

definition entry_le :: "string \<times> doc \<Rightarrow> string \<times> doc \<Rightarrow> bool" where
  "entry_le a b =
     (if emailKey (snd a) = emailKey (snd b) then str_le (fst a) (fst b)
      else str_le (emailKey (snd a)) (emailKey (snd b)))"

fun insertEntry :: "string \<times> doc \<Rightarrow> store \<Rightarrow> store" where
  "insertEntry a [] = [a]"
| "insertEntry a (b # bs) = (if entry_le a b then a # b # bs else b # insertEntry a bs)"

fun orderByEmail :: "store \<Rightarrow> store" where
  "orderByEmail [] = []"
| "orderByEmail (a # as) = insertEntry a (orderByEmail as)"

definition emailPrefixQuery :: "string \<Rightarrow> store \<Rightarrow> store" where
  "emailPrefixQuery searchTerm st =
     take 10 (orderByEmail
       (filter (\<lambda>e. emailInRange searchTerm (searchTerm @ sentinel) (snd e))
          (collectionGroup ''profile'' st)))"

text \<open>The object pushed for each document of the result.\<close>

definition suggestion :: "doc \<Rightarrow> doc" where
  "suggestion d =
     (Map.empty
        (''uid'' := d ''uid'',
         ''email'' := d ''email'',
         ''displayName'' := js_or_undef (d ''displayName'') (d ''email'')))"

definition searchUsersByEmail ::
  "auth_ctx option \<Rightarrow> jv option \<Rightarrow> string option \<Rightarrow> world \<Rightarrow> (https_error + doc list) \<times> world" where
  "searchUsersByEmail auth searchTerm env w =
     (case assertAdmin auth (envAppId env) (db w) of
        Inl e \<Rightarrow> (Inl e, w)
      | Inr u \<Rightarrow>
          (case searchTerm of
             Some (JStr s) \<Rightarrow>
               if js_length s < 2 then (Inr [], w)
               else (Inr (map (\<lambda>e. suggestion (snd e)) (emailPrefixQuery s (db w))), w)
           | _ \<Rightarrow> (Inr [], w)))"





section \<open>Reading the store, and example data\<close>

text \<open>The value of field \<open>k\<close> of the document at \<open>path\<close>, \<open>None\<close> when the document or
  the field is absent.\<close>

definition fieldAt :: "store \<Rightarrow> string \<Rightarrow> string \<Rightarrow> jv option" where
  "fieldAt st path k = (case docGet st path of None \<Rightarrow> None | Some d \<Rightarrow> d k)"

text \<open>Callers: Ann (uid \<open>u1\<close>), the same account after its display name changed at the
  identity provider, an administrator, Carl (an ordinary user) and Olga (an ordinary user
  who is to become a salon owner).\<close>

definition ann :: auth_ctx where
  "ann = \<lparr>auth_uid = ''u1'',
          token = \<lparr>tok_email = Some ''a@x.com'', tok_name = Some ''Ann'', tok_picture = None\<rparr>\<rparr>"

definition annRenamed :: auth_ctx where
  "annRenamed = \<lparr>auth_uid = ''u1'',
          token = \<lparr>tok_email = Some ''a@x.com'', tok_name = Some ''Anna'',
                   tok_picture = Some ''https://x.com/a.png''\<rparr>\<rparr>"

definition adminCaller :: auth_ctx where
  "adminCaller = \<lparr>auth_uid = ''adm'',
          token = \<lparr>tok_email = Some ''root@x.com'', tok_name = Some ''Root'', tok_picture = None\<rparr>\<rparr>"

definition carl :: auth_ctx where
  "carl = \<lparr>auth_uid = ''u3'',
          token = \<lparr>tok_email = Some ''carl@x.com'', tok_name = Some ''Carl'', tok_picture = None\<rparr>\<rparr>"

definition olga :: auth_ctx where
  "olga = \<lparr>auth_uid = ''o1'',
          token = \<lparr>tok_email = Some ''olga@x.com'', tok_name = Some ''Olga'', tok_picture = None\<rparr>\<rparr>"

definition emptyWorld :: world where
  "emptyWorld = \<lparr>db = [], errlog = []\<rparr>"

text \<open>A world for a deployment that leaves \<open>FIREBASE_APP_ID\<close> unset: an administrator,
  two profiles as \<open>ensureUserProfile\<close> writes them, and one salon.\<close>

definition demoWorld :: world where
  "demoWorld =
     \<lparr>db =
        [(getUserProfilePath ''default-app-id'' ''adm'',
            (newUserProfile adminCaller 1)(''role'' \<mapsto> JStr ''admin'')),
         (getUserProfilePath ''default-app-id'' ''u3'', newUserProfile carl 2),
         (getUserProfilePath ''default-app-id'' ''o1'', newUserProfile olga 3),
         (getSalonsCollectionPath ''default-app-id'' @ ''/s1'',
            map_of [(''name'', JStr ''Cuts''), (''ownerId'', JStr ''u0''),
                    (''createdAt'', JTime 4), (''updatedAt'', JTime 4)])],
      errlog = []\<rparr>"

text \<open>An identity provider that knows Olga and Nina (who has an account but no profile yet),
  and one whose calls all fail.\<close>

definition demoAuth :: auth_admin where
  "demoAuth =
     \<lparr>getUserByEmail =
        (\<lambda>e. if e = ''olga@x.com'' then Inr ''o1''
             else if e = ''nina@x.com'' then Inr ''n1''
             else Inl ''auth/user-not-found''),
      updateUser = (\<lambda>u d. None)\<rparr>"

definition failingAuth :: auth_admin where
  "failingAuth =
     \<lparr>getUserByEmail = (\<lambda>e. Inl ''auth/internal-error''),
      updateUser = (\<lambda>u d. Some ''auth/internal-error'')\<rparr>"

text \<open>Requests used in the examples.\<close>

definition transferToOlga :: UpdateSalonData where
  "transferToOlga =
     \<lparr>us_id = Some ''s1'', us_name = None, us_address = None, us_description = None,
      us_ownerEmail = Some ''olga@x.com''\<rparr>"

definition transferToNina :: UpdateSalonData where
  "transferToNina =
     \<lparr>us_id = Some ''s1'', us_name = Some ''Cuts and Curls'', us_address = None,
      us_description = None, us_ownerEmail = Some ''nina@x.com''\<rparr>"

definition transferToNobody :: UpdateSalonData where
  "transferToNobody =
     \<lparr>us_id = Some ''s1'', us_name = None, us_address = None, us_description = None,
      us_ownerEmail = Some ''nobody@x.com''\<rparr>"

definition salonForNobody :: AddSalonData where
  "salonForNobody =
     \<lparr>as_name = Some ''Waves'', as_address = Some (JObj [(''city'', JStr ''Tbilisi'')]),
      as_description = Some ''New in town'', as_ownerEmail = Some ''nobody@x.com''\<rparr>"


definition renamePatch :: payload where
  "renamePatch = [(''displayName'', JStr ''Carlos'')]"

definition nestedPatch :: payload where
  "nestedPatch = [(''address.city'', JStr ''Tbilisi'')]"

definition slashKeyPatch :: payload where
  "slashKeyPatch = [(''a/b'', JNum 1)]"

section \<open>Facts about the store primitives and the paths\<close>

lemma docGet_docSet: "docGet (docSet p d st) q = (if q = p then Some d else docGet st q)"
  by (simp add: docGet_def docSet_def AList.update_conv')

lemma map_of_docSet: "map_of (docSet p d st) = (map_of st)(p \<mapsto> d)"
  by (simp add: docSet_def AList.update_conv')

lemma keys_docSet:
  "map fst (docSet p d st) = (if docGet st p = None then map fst st @ [p] else map fst st)"
  by (auto simp add: docSet_def docGet_def AList.update_keys map_of_eq_None_iff)

lemma docUpdate_present:
  "docGet st p = Some old \<Longrightarrow> docUpdate p f st = Some (docSet p (old ++ f) st)"
  by (simp add: docUpdate_def docGet_def docSet_def)

lemma docUpdate_absent: "docGet st p = None \<Longrightarrow> docUpdate p f st = None"
  by (simp add: docUpdate_def docGet_def)


lemma fieldAt_docSet: "fieldAt (docSet p d st) q k = (if q = p then d k else fieldAt st q k)"
  by (simp add: fieldAt_def docGet_docSet)

lemma docSet_same: "docGet st p = Some d \<Longrightarrow> docSet p d st = st"
  by (simp add: docSet_def docGet_def AList.update_triv)

lemma distinct_docSet: "distinct (map fst st) \<Longrightarrow> distinct (map fst (docSet p d st))"
  by (simp add: docSet_def AList.distinct_update)

lemma profile_path_inj: "(getUserProfilePath appId u = getUserProfilePath appId u') = (u = u')"
  by (simp add: getUserProfilePath_def)

lemma profile_ne_salon:
  "getUserProfilePath appId u \<noteq> getSalonsCollectionPath appId @ ''/'' @ sid"
  by (simp add: getUserProfilePath_def getSalonsCollectionPath_def)

lemma profile_ne_salon':
  "getUserProfilePath appId u \<noteq> getSalonsCollectionPath appId @ CHR ''/'' # sid"
  using profile_ne_salon [of appId u sid] by simp


subsection \<open>Field paths and the update of a profile\<close>








lemma finalUpdates_lookup:
  "k \<noteq> ''targetUid'' \<Longrightarrow> k \<noteq> ''role'' \<Longrightarrow> k \<noteq> ''updatedAt''
     \<Longrightarrow> map_of (finalUpdates data now) k = map_of data k"
  by (simp add: finalUpdates_def AList.update_conv' AList.delete_conv' AList.map_of_clearjunk
      split: option.splits)




lemma docUpdateFields_Some:
  "docUpdateFields p fu st = Some st' \<Longrightarrow>
     conflictingFields (map (fieldSegments []) (map fst fu)) = False
     \<and> (\<exists>old. docGet st p = Some old \<and> st' = docSet p (applyUpdate fu old) st)"
  by (auto simp add: docUpdateFields_def docGet_def docSet_def split: if_splits option.splits)

text \<open>The checks before the \<open>try\<close> block do not depend on the identity provider.\<close>

lemma updateAuthUserProfile_guards:
  "(\<exists>e. (\<forall>authAdmin. updateAuthUserProfile (Some a) data env authAdmin now w = (Inl e, w))
        \<and> (e = HttpsError NotFound ''Target user profile not found.''
             \<longrightarrow> docGet (db w) (getUserProfilePath (envAppId env)
                   (uidOrCaller (map_of data ''targetUid'') (auth_uid a))) = None))
   \<or> (\<forall>authAdmin. updateAuthUserProfile (Some a) data env authAdmin now w =
         updateAuthUserProfile_try
           (getUserProfilePath (envAppId env) (uidOrCaller (map_of data ''targetUid'') (auth_uid a)))
           (uidOrCaller (map_of data ''targetUid'') (auth_uid a))
           (finalUpdates data now) authAdmin w)"
proof -
  let ?uid = "uidOrCaller (map_of data ''targetUid'') (auth_uid a)"
  let ?p = "getUserProfilePath (envAppId env) ?uid"
  let ?cp = "getUserProfilePath (envAppId env) (auth_uid a)"
  let ?R = "\<lambda>aa. updateAuthUserProfile (Some a) data env aa now w"
  have early: ?thesis
    if "\<And>aa. ?R aa = (Inl e, w)"
      and "e = HttpsError NotFound ''Target user profile not found.'' \<Longrightarrow> docGet (db w) ?p = None"
    for e
    using that by blast
  show ?thesis
  proof (cases "invalidDocPath ?p")
    case True
    then have "?R aa = (Inl (HttpsError Internal ''INTERNAL''), w)" for aa
      by (simp add: updateAuthUserProfile_def Let_def)
    then show ?thesis by (rule early) simp
  next
    case v: False
    show ?thesis
    proof (cases "docGet (db w) ?p")
      case None
      with v have "?R aa = (Inl (HttpsError NotFound ''Target user profile not found.''), w)" for aa
        by (simp add: updateAuthUserProfile_def Let_def)
      then show ?thesis using None by (rule early)
    next
      case (Some cur)
      show ?thesis
      proof (cases "auth_uid a \<noteq> ?uid \<and> invalidDocPath ?cp")
        case True
        with v Some have "?R aa = (Inl (HttpsError Internal ''INTERNAL''), w)" for aa
          by (simp add: updateAuthUserProfile_def Let_def)
        then show ?thesis by (rule early) simp
      next
        case c1: False
        show ?thesis
        proof (cases "auth_uid a \<noteq> ?uid \<and> callerNotAdmin (db w) (envAppId env) (auth_uid a)")
          case True
          with v Some c1 have "?R aa = (Inl (HttpsError PermissionDenied
                         ''You do not have permission to update other user profiles.''), w)" for aa
            by (simp add: updateAuthUserProfile_def Let_def)
          then show ?thesis by (rule early) simp
        next
          case c2: False
          show ?thesis
          proof (cases "(case map_of data ''role'' of
                    None \<Rightarrow> False
                  | Some role \<Rightarrow>
                      if auth_uid a = ?uid then
                        (if strict_eq (cur ''role'') role then False
                         else callerNotAdmin (db w) (envAppId env) (auth_uid a))
                      else callerNotAdmin (db w) (envAppId env) (auth_uid a))")
            case True
            with v Some c1 c2 have "?R aa = (Inl (HttpsError PermissionDenied
                         ''Only administrators can change user roles.''), w)" for aa
              by (simp add: updateAuthUserProfile_def Let_def)
            then show ?thesis by (rule early) simp
          next
            case c3: False
            show ?thesis
            proof (cases "(case map_of data ''photoURL'' of
                    None \<Rightarrow> False
                  | Some v \<Rightarrow> if is_string (Some v) then False else if v = JNull then False else True)")
              case True
              with v Some c1 c2 c3 have "?R aa = (Inl (HttpsError InvalidArgument
                         ''photoURL must be a string URL or null.''), w)" for aa
                by (simp add: updateAuthUserProfile_def Let_def)
              then show ?thesis by (rule early) simp
            next
              case c4: False
              with v Some c1 c2 c3
              have "?R aa = updateAuthUserProfile_try ?p ?uid (finalUpdates data now) aa w" for aa
                by (auto simp add: updateAuthUserProfile_def Let_def)
              then show ?thesis by blast
            qed
          qed
        qed
      qed
    qed
  qed
qed



subsection \<open>Profile paths\<close>




section \<open>ensureUserProfile: first login and later logins\<close>






section \<open>ensureUserProfile: two first logins that both read before either writes\<close>

text \<open>
  Claim C7 (as amended).  The creation path is a read followed by an unconditional
  \<open>set\<close>.  When two first-time calls for one uid have both read the profile as absent,
  both succeed, both write the same path, so the store never holds two profile documents
  for the uid; but the later \<open>set\<close> replaces the document of the earlier call whole: the
  stored profile, its \<open>createdAt\<close> included, is the one built by the later call.
\<close>

theorem ensureUserProfile_write_last_set_wins:
  assumes same: "auth_uid a' = auth_uid a"
    and keys: "distinct (map fst (db w))"
  shows "\<exists>r1 w1 r2 w2.
      ensureUserProfile_write a False t1 d1 d2 w = (Inr r1, w1)
    \<and> ensureUserProfile_write a' False t2 d3 d4 w1 = (Inr r2, w2)
    \<and> map_of (db w1) =
        (map_of (db w))(getUserProfilePath hardcodedAppId (auth_uid a) \<mapsto> newUserProfile a t1)
    \<and> map_of (db w2) =
        (map_of (db w))(getUserProfilePath hardcodedAppId (auth_uid a) \<mapsto> newUserProfile a' t2)
    \<and> map fst (db w2) = map fst (db w1)
    \<and> distinct (map fst (db w2))
    \<and> fieldAt (db w1) (getUserProfilePath hardcodedAppId (auth_uid a)) ''createdAt'' = Some (JTime t1)
    \<and> fieldAt (db w2) (getUserProfilePath hardcodedAppId (auth_uid a)) ''createdAt'' = Some (JTime t2)"
proof -
  let ?p = "getUserProfilePath hardcodedAppId (auth_uid a)"
  let ?w1 = "w\<lparr>db := docSet ?p (newUserProfile a t1) (db w)\<rparr>"
  let ?w2 = "?w1\<lparr>db := docSet ?p (newUserProfile a' t2) (db ?w1)\<rparr>"
  have c: "newUserProfile b t ''createdAt'' = Some (JTime t)" for b t
    by (simp add: newUserProfile_def)
  have 1: "ensureUserProfile_write a False t1 d1 d2 w =
      (Inr ((newUserProfile a t1)(''createdAt'' \<mapsto> JTime d1, ''lastLoginAt'' \<mapsto> JTime d2)), ?w1)"
    by (simp add: ensureUserProfile_write_def)
  have 2: "ensureUserProfile_write a' False t2 d3 d4 ?w1 =
      (Inr ((newUserProfile a' t2)(''createdAt'' \<mapsto> JTime d3, ''lastLoginAt'' \<mapsto> JTime d4)), ?w2)"
    by (simp add: ensureUserProfile_write_def same)
  have 3: "map_of (db ?w1) = (map_of (db w))(?p \<mapsto> newUserProfile a t1)"
    by (simp add: map_of_docSet)
  have 4: "map_of (db ?w2) = (map_of (db w))(?p \<mapsto> newUserProfile a' t2)"
    by (simp add: map_of_docSet)
  have 5: "map fst (db ?w2) = map fst (db ?w1)"
    by (simp add: keys_docSet docGet_docSet)
  have 6: "distinct (map fst (db ?w2))"
    using keys by (simp add: distinct_docSet)
  have 7: "fieldAt (db ?w1) ?p ''createdAt'' = Some (JTime t1)"
    by (simp add: fieldAt_docSet c)
  have 8: "fieldAt (db ?w2) ?p ''createdAt'' = Some (JTime t2)"
    by (simp add: fieldAt_docSet c)
  from 1 2 3 4 5 6 7 8 show ?thesis by blast
qed

theorem ensureUserProfile_write_last_set_wins_witness:
  "auth_uid annRenamed = auth_uid ann
   \<and> distinct (map fst (db emptyWorld))
   \<and> (\<exists>r1 w1 r2 w2.
      ensureUserProfile_write ann False 10 11 12 emptyWorld = (Inr r1, w1)
    \<and> ensureUserProfile_write annRenamed False 20 21 22 w1 = (Inr r2, w2)
    \<and> map_of (db w1) =
        (map_of (db emptyWorld))(getUserProfilePath hardcodedAppId (auth_uid ann)
                                   \<mapsto> newUserProfile ann 10)
    \<and> map_of (db w2) =
        (map_of (db emptyWorld))(getUserProfilePath hardcodedAppId (auth_uid ann)
                                   \<mapsto> newUserProfile annRenamed 20)
    \<and> map fst (db w2) = map fst (db w1)
    \<and> distinct (map fst (db w2))
    \<and> fieldAt (db w1) (getUserProfilePath hardcodedAppId (auth_uid ann)) ''createdAt''
        = Some (JTime 10)
    \<and> fieldAt (db w2) (getUserProfilePath hardcodedAppId (auth_uid ann)) ''createdAt''
        = Some (JTime 20))"
proof -
  have h1: "auth_uid annRenamed = auth_uid ann"
    by (simp add: annRenamed_def ann_def)
  have h2: "distinct (map fst (db emptyWorld))"
    by (simp add: emptyWorld_def)
  from ensureUserProfile_write_last_set_wins [OF h1 h2, of 10 11 12 20 21 22] h1 h2
  show ?thesis by (intro conjI)
qed

text \<open>
  The claim as stated fails: both calls find no profile for \<open>u1\<close> in the empty store; the
  first then writes a profile created at 10, and the write of the second, which still
  acts on its earlier read, leaves a profile created at 20.  Run one after the other, the
  two calls leave \<open>createdAt\<close> at 10.
\<close>

theorem ensureUserProfile_unconditional_set_counterexample:
  "docGet (db emptyWorld) (getUserProfilePath hardcodedAppId ''u1'') = None
   \<and> fieldAt (db (snd (ensureUserProfile_write ann False 10 10 10 emptyWorld)))
        (getUserProfilePath hardcodedAppId ''u1'') ''createdAt'' = Some (JTime 10)
   \<and> fieldAt (db (snd (ensureUserProfile_write annRenamed False 20 20 20
          (snd (ensureUserProfile_write ann False 10 10 10 emptyWorld)))))
        (getUserProfilePath hardcodedAppId ''u1'') ''createdAt'' = Some (JTime 20)
   \<and> fieldAt (db (snd (ensureUserProfile (Some annRenamed) 20 20 20
          (snd (ensureUserProfile (Some ann) 10 10 10 emptyWorld)))))
        (getUserProfilePath hardcodedAppId ''u1'') ''createdAt'' = Some (JTime 10)"
  by code_simp

section \<open>updateSalon: the new owner's role\<close>

text \<open>
  Claim C1.  The owner step compares the stored role with \<open>'user'\<close>, a value outside
  \<open>UserRole = 'admin' | 'customer'\<close> that no handler writes.  An administrator assigns the
  salon \<open>s1\<close> to Olga, whose profile is the one \<open>ensureUserProfile\<close> wrote, with role
  \<open>customer\<close>: the call succeeds, the salon's owner becomes \<open>o1\<close>, and Olga's role is still
  \<open>customer\<close>.
\<close>

theorem updateSalon_customer_not_promoted:
  "fst (updateSalon (Some adminCaller)
          \<lparr>us_id = Some ''s1'', us_name = None, us_address = None, us_description = None,
           us_ownerEmail = Some ''olga@x.com''\<rparr> None demoAuth 50 51 demoWorld)
     = Inr ''Salon updated successfully!''
   \<and> fieldAt (db demoWorld) (getUserProfilePath ''default-app-id'' ''o1'') ''role''
       = Some (JStr ''customer'')
   \<and> fieldAt (db (snd (updateSalon (Some adminCaller)
          \<lparr>us_id = Some ''s1'', us_name = None, us_address = None, us_description = None,
           us_ownerEmail = Some ''olga@x.com''\<rparr> None demoAuth 50 51 demoWorld)))
        (getSalonsCollectionPath ''default-app-id'' @ ''/s1'') ''ownerId'' = Some (JStr ''o1'')
   \<and> fieldAt (db (snd (updateSalon (Some adminCaller)
          \<lparr>us_id = Some ''s1'', us_name = None, us_address = None, us_description = None,
           us_ownerEmail = Some ''olga@x.com''\<rparr> None demoAuth 50 51 demoWorld)))
        (getUserProfilePath ''default-app-id'' ''o1'') ''role'' = Some (JStr ''customer'')"
  by code_simp

text \<open>What the owner step does in each of its three cases.\<close>

lemma ownerProfileStep_absent:
  assumes "docGet st (getUserProfilePath appId oid) = None"
  shows "ownerProfileStep appId oid (Some e) t st =
           Some (docSet (getUserProfilePath appId oid)
                   (map_of [(''email'', JStr e), (''role'', JStr ''salon''), (''createdAt'', JTime t)]) st)"
  using assms by (simp add: ownerProfileStep_def docSetMerge_def docGet_def docSet_def)

lemma ownerProfileStep_user:
  assumes "docGet st (getUserProfilePath appId oid) = Some d" and "d ''role'' = Some (JStr ''user'')"
  shows "ownerProfileStep appId oid oe t st =
           Some (docSet (getUserProfilePath appId oid) (d(''role'' \<mapsto> JStr ''salon'')) st)"
  using assms by (simp add: ownerProfileStep_def docUpdate_present)

lemma ownerProfileStep_settled:
  "docGet st (getUserProfilePath appId oid) = Some d \<Longrightarrow> d ''role'' \<noteq> Some (JStr ''user'')
    \<Longrightarrow> ownerProfileStep appId oid oe t st = Some st"
  by (simp add: ownerProfileStep_def)

section \<open>updateAuthUserProfile: the order of the checks\<close>

text \<open>
  Claim C8.  \<open>updateAuthUserProfile\<close> reads the target's document before it checks the
  caller's permission.  Carl, who is not an administrator, names a target \<open>ghost\<close> that has
  no profile: the answer is \<open>not-found\<close>, not \<open>permission-denied\<close>.  On the same input
  \<open>getAuthUserProfile\<close>, which checks the permission first, answers \<open>permission-denied\<close>.
\<close>

theorem updateAuthUserProfile_reads_target_first:
  "fst (updateAuthUserProfile (Some carl)
          [(''targetUid'', JStr ''ghost''), (''displayName'', JStr ''x'')]
          None demoAuth 50 demoWorld)
     = Inl (HttpsError NotFound ''Target user profile not found.'')
   \<and> fst (getAuthUserProfile (Some carl) (Some (JStr ''ghost'')) None 50 demoWorld)
     = Inl (HttpsError PermissionDenied
              ''You do not have permission to fetch other user profiles.'')"
proof -
  have v: "invalidDocPath (getUserProfilePath ''default-app-id'' ''ghost'') = False"
    "invalidDocPath (getUserProfilePath ''default-app-id'' ''u3'') = False"
    by code_simp+
  have 1: "fst (updateAuthUserProfile (Some carl)
          [(''targetUid'', JStr ''ghost''), (''displayName'', JStr ''x'')]
          None demoAuth 50 demoWorld)
     = Inl (HttpsError NotFound ''Target user profile not found.'')"
    by code_simp
  have 2: "fst (getAuthUserProfile (Some carl) (Some (JStr ''ghost'')) None 50 demoWorld)
     = Inl (HttpsError PermissionDenied
              ''You do not have permission to fetch other user profiles.'')"
    using v
    by (simp add: getAuthUserProfile_def carl_def demoWorld_def
      uidOrCaller_def envAppId_def docGet_def callerNotAdmin_def newUserProfile_def)
       (simp add: getUserProfilePath_def getSalonsCollectionPath_def)
  from 1 2 show ?thesis by (rule conjI)
qed


section \<open>updateAuthUserProfile: which fields a patch reaches\<close>

text \<open>The store primitive on the keys a request may carry: a dotted key writes inside the
  field it leads through, replacing a field that is not a map; a key with a slash is
  rejected, and so is a pair of keys of which one leads through the other.\<close>

lemma docUpdateFields_examples:
  "applyUpdate [(''createdAt.x'', JNum 1)] (map_of [(''createdAt'', JTime 2), (''uid'', JStr ''u3'')])
       ''createdAt'' = Some (JObj [(''x'', JNum 1)])
   \<and> applyUpdate [(''address.city'', JStr ''Tbilisi'')]
         (map_of [(''address'', JObj [(''street'', JStr ''Main''), (''city'', JStr ''Batumi'')])])
       ''address'' = Some (JObj [(''street'', JStr ''Main''), (''city'', JStr ''Tbilisi'')])
   \<and> validFieldPath ''a/b'' = False
   \<and> validFieldPath ''a..b'' = False
   \<and> validFieldPath [] = False
   \<and> validFieldPath ''address.city'' = True
   \<and> conflictingFields (map (fieldSegments []) [''uid'', ''uid.x'']) = True"
  by code_simp

text \<open>The handler on such requests: an invalid key makes the update throw inside the
  \<open>try\<close> block, so the answer is \<open>internal\<close> and one line is logged; a \<open>targetUid\<close> whose
  path is no document path makes \<open>db.doc\<close> throw outside it.\<close>

lemma updateAuthUserProfile_request_examples:
  "fst (updateAuthUserProfile (Some carl) slashKeyPatch None demoAuth 50 demoWorld)
     = Inl (HttpsError Internal ''Failed to update user profile.'')
   \<and> errlog (snd (updateAuthUserProfile (Some carl) slashKeyPatch None demoAuth 50 demoWorld))
     = [''Error updating user profile in Cloud Function:'']
   \<and> fst (updateAuthUserProfile (Some carl) [(''targetUid'', JStr ''a/b'')] None demoAuth 50 demoWorld)
     = Inl (HttpsError Internal ''INTERNAL'')
   \<and> fst (updateAuthUserProfile (Some carl) nestedPatch None demoAuth 50 demoWorld)
     = Inr ''User profile updated successfully!''
   \<and> fieldAt (db (snd (updateAuthUserProfile (Some carl) nestedPatch None demoAuth 50 demoWorld)))
        (getUserProfilePath ''default-app-id'' ''u3'') ''address''
     = Some (JObj [(''city'', JStr ''Tbilisi'')])"
  by code_simp




section \<open>updateAuthUserProfile: a failing mirror to the identity provider\<close>

text \<open>
  Claim C5 (as amended).  The store update and the call of \<open>authAdmin.updateUser\<close> share
  one \<open>try\<close> block.  Take a request (its \<open>targetUid\<close> a string or falsy) that succeeds
  when \<open>updateUser\<close> succeeds, leaving the world \<open>w'\<close>, and that carries a truthy
  \<open>displayName\<close> or \<open>photoURL\<close>.  If \<open>updateUser\<close> throws instead, the handler logs the
  error and answers \<open>internal\<close>; the store is that of \<open>w'\<close>: the profile write is kept,
  with the update applied to the target.
\<close>

theorem updateAuthUserProfile_mirror_failure:
  assumes typed: "targetUidTyped data"
    and ok: "updateAuthUserProfile (Some a) data env (authAdmin\<lparr>updateUser := \<lambda>u d. None\<rparr>) now w
                 = (Inr m, w')"
    and mirrored: "truthy (map_of data ''displayName'') \<or> truthy (map_of data ''photoURL'')"
    and fails: "updateUser authAdmin (uidOrCaller (map_of data ''targetUid'') (auth_uid a))
                  (authUpdate (map_of (finalUpdates data now))) = Some code"
  shows "updateAuthUserProfile (Some a) data env authAdmin now w =
           (Inl (HttpsError Internal ''Failed to update user profile.''),
            console_error ''Error updating user profile in Cloud Function:'' w')
       \<and> db (console_error ''Error updating user profile in Cloud Function:'' w') = db w'
       \<and> errlog (console_error ''Error updating user profile in Cloud Function:'' w')
           = errlog w @ [''Error updating user profile in Cloud Function:'']
       \<and> (\<exists>old. docGet (db w) (getUserProfilePath (envAppId env)
                                  (uidOrCaller (map_of data ''targetUid'') (auth_uid a))) = Some old
              \<and> docGet (db w') (getUserProfilePath (envAppId env)
                                   (uidOrCaller (map_of data ''targetUid'') (auth_uid a)))
                  = Some (applyUpdate (finalUpdates data now) old))"
proof -
  let ?p = "getUserProfilePath (envAppId env) (uidOrCaller (map_of data ''targetUid'') (auth_uid a))"
  let ?uid = "uidOrCaller (map_of data ''targetUid'') (auth_uid a)"
  let ?fu = "finalUpdates data now"
  have fu: "map_of ?fu ''displayName'' = map_of data ''displayName''"
     "map_of ?fu ''photoURL'' = map_of data ''photoURL''"
    by (simp_all add: finalUpdates_lookup)
  from updateAuthUserProfile_guards [of a data env now w] ok
  have g: "updateAuthUserProfile (Some a) data env aa now w = updateAuthUserProfile_try ?p ?uid ?fu aa w"
    for aa
    by auto
  from ok have t: "updateAuthUserProfile_try ?p ?uid ?fu (authAdmin\<lparr>updateUser := \<lambda>u d. None\<rparr>) w = (Inr m, w')"
    by (simp add: g)
  from t obtain st where u: "docUpdateFields ?p ?fu (db w) = Some st"
    by (cases "docUpdateFields ?p ?fu (db w)") (auto simp add: updateAuthUserProfile_try_def)
  from docUpdateFields_Some [OF u] obtain old where
    o: "docGet (db w) ?p = Some old"
    and s: "st = docSet ?p (applyUpdate ?fu old) (db w)" by blast
  from t u mirrored fu have w': "w' = w\<lparr>db := st\<rparr>"
    by (auto simp add: updateAuthUserProfile_try_def)
  from u mirrored fails fu
  have r: "updateAuthUserProfile_try ?p ?uid ?fu authAdmin w =
           (Inl (HttpsError Internal ''Failed to update user profile.''),
            console_error ''Error updating user profile in Cloud Function:'' w')"
    by (auto simp add: updateAuthUserProfile_try_def w')
  have gd: "docGet (db w') ?p = Some (applyUpdate ?fu old)"
    by (simp add: w' s docGet_docSet)
  from r o gd show ?thesis by (auto simp add: g console_error_def w')
qed

theorem updateAuthUserProfile_mirror_failure_witness:
  "targetUidTyped renamePatch
   \<and> updateAuthUserProfile (Some carl) renamePatch None
       (failingAuth\<lparr>updateUser := \<lambda>u d. None\<rparr>) 50 demoWorld
     = (Inr ''User profile updated successfully!'',
        snd (updateAuthUserProfile (Some carl) renamePatch None
       (failingAuth\<lparr>updateUser := \<lambda>u d. None\<rparr>) 50 demoWorld))
   \<and> (truthy (map_of renamePatch ''displayName'') \<or> truthy (map_of renamePatch ''photoURL''))
   \<and> updateUser failingAuth (uidOrCaller (map_of renamePatch ''targetUid'') (auth_uid carl))
        (authUpdate (map_of (finalUpdates renamePatch 50))) = Some ''auth/internal-error''
   \<and> updateAuthUserProfile (Some carl) renamePatch None failingAuth 50 demoWorld =
        (Inl (HttpsError Internal ''Failed to update user profile.''),
         console_error ''Error updating user profile in Cloud Function:''
           (snd (updateAuthUserProfile (Some carl) renamePatch None
       (failingAuth\<lparr>updateUser := \<lambda>u d. None\<rparr>) 50 demoWorld)))"
proof -
  have typed: "targetUidTyped renamePatch"
    by (simp add: targetUidTyped_def renamePatch_def)
  have f: "fst (updateAuthUserProfile (Some carl) renamePatch None
       (failingAuth\<lparr>updateUser := \<lambda>u d. None\<rparr>) 50 demoWorld)
       = Inr ''User profile updated successfully!''" by code_simp
  have ok: "updateAuthUserProfile (Some carl) renamePatch None
       (failingAuth\<lparr>updateUser := \<lambda>u d. None\<rparr>) 50 demoWorld
     = (Inr ''User profile updated successfully!'',
        snd (updateAuthUserProfile (Some carl) renamePatch None
       (failingAuth\<lparr>updateUser := \<lambda>u d. None\<rparr>) 50 demoWorld))"
    using f by (simp add: prod_eq_iff)
  have mirrored: "truthy (map_of renamePatch ''displayName'') \<or> truthy (map_of renamePatch ''photoURL'')"
    by (simp add: renamePatch_def)
  have fails: "updateUser failingAuth (uidOrCaller (map_of renamePatch ''targetUid'') (auth_uid carl))
        (authUpdate (map_of (finalUpdates renamePatch 50))) = Some ''auth/internal-error''"
    by (simp add: failingAuth_def)
  from updateAuthUserProfile_mirror_failure [OF typed ok mirrored fails]
  have c: "updateAuthUserProfile (Some carl) renamePatch None failingAuth 50 demoWorld =
        (Inl (HttpsError Internal ''Failed to update user profile.''),
         console_error ''Error updating user profile in Cloud Function:''
           (snd (updateAuthUserProfile (Some carl) renamePatch None
       (failingAuth\<lparr>updateUser := \<lambda>u d. None\<rparr>) 50 demoWorld)))"
    by (rule conjunct1)
  from typed ok mirrored fails c show ?thesis by (intro conjI)
qed

text \<open>
  The claim as stated fails: Carl renames himself while \<open>updateUser\<close> throws.  The answer
  is the error \<open>internal\<close>, not success; one line is logged; the new name is in the store.
\<close>

theorem updateAuthUserProfile_mirror_failure_counterexample:
  "fst (updateAuthUserProfile (Some carl) renamePatch None failingAuth 50 demoWorld)
     = Inl (HttpsError Internal ''Failed to update user profile.'')
   \<and> errlog (snd (updateAuthUserProfile (Some carl) renamePatch None failingAuth 50 demoWorld))
     = [''Error updating user profile in Cloud Function:'']
   \<and> fieldAt (db (snd (updateAuthUserProfile (Some carl) renamePatch None failingAuth 50 demoWorld)))
        (getUserProfilePath ''default-app-id'' ''u3'') ''displayName'' = Some (JStr ''Carlos'')
   \<and> fieldAt (db (snd (updateAuthUserProfile (Some carl) renamePatch None failingAuth 50 demoWorld)))
        (getUserProfilePath ''default-app-id'' ''u3'') ''updatedAt'' = Some (JTime 50)"
  by code_simp

section \<open>addSalon and updateSalon: from the owner's email to the owner identifier\<close>

text \<open>
  Claim C3 (as amended).  For an administrator and a request that passes validation:
  \<open>updateSalon\<close> with an \<open>ownerEmail\<close> looks the email up at the identity provider; when
  the lookup throws \<open>auth/user-not-found\<close> the call fails with \<open>not-found\<close>, when it throws
  anything else the call fails with \<open>internal\<close>, and in both cases nothing is written; when
  the lookup returns a uid, a call that succeeds has stored that uid as the salon's
  \<open>ownerId\<close> (and a call that fails then fails with \<open>internal\<close>).  \<open>addSalon\<close> makes no
  lookup: it succeeds and stores the email itself as \<open>ownerId\<close>.
\<close>

theorem owner_email_resolution:
  assumes admin: "assertAdmin auth (envAppId env) (db w) = Inr ()"
    and sid: "us_id upd = Some sid" "sid \<noteq> []"
    and em: "us_ownerEmail upd = Some e" "e \<noteq> []"
    and em': "as_ownerEmail add = Some e'" "e' \<noteq> []"
    and valid: "truthy_str (as_name add)" "truthy (as_address add)" "truthy_str (as_description add)"
    and free: "docGet (db w) (getSalonsCollectionPath (envAppId env) @ ''/'' @ newId) = None"
  shows "(case getUserByEmail authAdmin e of
            Inl code \<Rightarrow>
              updateSalon auth upd env authAdmin nowP nowS w =
                (Inl (if code = ''auth/user-not-found''
                      then HttpsError NotFound
                             (''User with email '' @ e @ '' not found. Please ensure the user exists.'')
                      else HttpsError Internal ''Failed to verify new owner email.''),
                 console_error ''Error looking up new owner by email:'' w)
          | Inr uid \<Rightarrow>
              (case updateSalon auth upd env authAdmin nowP nowS w of
                 (Inl err, w') \<Rightarrow> err = HttpsError Internal ''Failed to update salon.''
               | (Inr m, w') \<Rightarrow>
                   if uid = [] then True
                   else fieldAt (db w') (getSalonsCollectionPath (envAppId env) @ ''/'' @ sid) ''ownerId''
                          = Some (JStr uid)))
       \<and> fst (addSalon auth add env newId now w) = Inr (newId, ''Salon added successfully!'')
       \<and> fieldAt (db (snd (addSalon auth add env newId now w)))
            (getSalonsCollectionPath (envAppId env) @ ''/'' @ newId) ''ownerId'' = Some (JStr e')"
proof -
  have add_ok: "fst (addSalon auth add env newId now w) = Inr (newId, ''Salon added successfully!'')"
    using admin em' valid free by (simp add: addSalon_def Let_def)
  have add_owner: "fieldAt (db (snd (addSalon auth add env newId now w)))
            (getSalonsCollectionPath (envAppId env) @ ''/'' @ newId) ''ownerId'' = Some (JStr e')"
    using admin em' valid free by (simp add: addSalon_def Let_def fieldAt_docSet)
  have upd: "(case getUserByEmail authAdmin e of
            Inl code \<Rightarrow>
              updateSalon auth upd env authAdmin nowP nowS w =
                (Inl (if code = ''auth/user-not-found''
                      then HttpsError NotFound
                             (''User with email '' @ e @ '' not found. Please ensure the user exists.'')
                      else HttpsError Internal ''Failed to verify new owner email.''),
                 console_error ''Error looking up new owner by email:'' w)
          | Inr uid \<Rightarrow>
              (case updateSalon auth upd env authAdmin nowP nowS w of
                 (Inl err, w') \<Rightarrow> err = HttpsError Internal ''Failed to update salon.''
               | (Inr m, w') \<Rightarrow>
                   if uid = [] then True
                   else fieldAt (db w') (getSalonsCollectionPath (envAppId env) @ ''/'' @ sid) ''ownerId''
                          = Some (JStr uid)))"
    using admin sid em
    by (auto simp add: updateSalon_def updateSalon_try_def Let_def lookupOwner_def updateData_def
        docUpdate_def fieldAt_def docGet_def AList.update_conv'
        split: sum.splits option.splits if_splits)
  from upd add_ok add_owner show ?thesis by (intro conjI)
qed

theorem owner_email_resolution_witness:
  "assertAdmin (Some adminCaller) (envAppId None) (db demoWorld) = Inr ()
   \<and> us_id transferToNobody = Some ''s1'' \<and> us_id transferToOlga = Some ''s1'' \<and> ''s1'' \<noteq> []
   \<and> us_ownerEmail transferToNobody = Some ''nobody@x.com'' \<and> ''nobody@x.com'' \<noteq> []
   \<and> us_ownerEmail transferToOlga = Some ''olga@x.com'' \<and> ''olga@x.com'' \<noteq> []
   \<and> as_ownerEmail salonForNobody = Some ''nobody@x.com''
   \<and> truthy_str (as_name salonForNobody) \<and> truthy (as_address salonForNobody)
   \<and> truthy_str (as_description salonForNobody)
   \<and> docGet (db demoWorld) (getSalonsCollectionPath (envAppId None) @ ''/'' @ ''s2'') = None
   \<and> updateSalon (Some adminCaller) transferToNobody None demoAuth 50 51 demoWorld =
        (Inl (HttpsError NotFound
               (''User with email '' @ ''nobody@x.com'' @ '' not found. Please ensure the user exists.'')),
         console_error ''Error looking up new owner by email:'' demoWorld)
   \<and> updateSalon (Some adminCaller) transferToNobody None failingAuth 50 51 demoWorld =
        (Inl (HttpsError Internal ''Failed to verify new owner email.''),
         console_error ''Error looking up new owner by email:'' demoWorld)
   \<and> fieldAt (db (snd (updateSalon (Some adminCaller) transferToOlga None demoAuth 50 51 demoWorld)))
        (getSalonsCollectionPath (envAppId None) @ ''/'' @ ''s1'') ''ownerId'' = Some (JStr ''o1'')
   \<and> fst (addSalon (Some adminCaller) salonForNobody None ''s2'' 50 demoWorld)
        = Inr (''s2'', ''Salon added successfully!'')
   \<and> fieldAt (db (snd (addSalon (Some adminCaller) salonForNobody None ''s2'' 50 demoWorld)))
        (getSalonsCollectionPath (envAppId None) @ ''/'' @ ''s2'') ''ownerId''
        = Some (JStr ''nobody@x.com'')"
proof -
  have admin: "assertAdmin (Some adminCaller) (envAppId None) (db demoWorld) = Inr ()"
    by (simp add: assertAdmin_def adminCaller_def demoWorld_def envAppId_def docGet_def
        getUserProfilePath_def)
  have sidN: "us_id transferToNobody = Some ''s1''" and sidO: "us_id transferToOlga = Some ''s1''"
    and s1: "''s1'' \<noteq> []"
    and emN: "us_ownerEmail transferToNobody = Some ''nobody@x.com''" and n: "''nobody@x.com'' \<noteq> []"
    and emO: "us_ownerEmail transferToOlga = Some ''olga@x.com''" and ol: "''olga@x.com'' \<noteq> []"
    and emA: "as_ownerEmail salonForNobody = Some ''nobody@x.com''"
    and v1: "truthy_str (as_name salonForNobody)" and v2: "truthy (as_address salonForNobody)"
    and v3: "truthy_str (as_description salonForNobody)"
    by (simp_all add: transferToNobody_def transferToOlga_def salonForNobody_def)
  have free: "docGet (db demoWorld) (getSalonsCollectionPath (envAppId None) @ ''/'' @ ''s2'') = None"
    by (simp add: demoWorld_def envAppId_def docGet_def getUserProfilePath_def
        getSalonsCollectionPath_def)
  have okO: "fst (updateSalon (Some adminCaller) transferToOlga None demoAuth 50 51 demoWorld)
      = Inr ''Salon updated successfully!''" by code_simp
  note t = owner_email_resolution [OF admin _ s1 _ _ emA n v1 v2 v3 free]
  from t [OF sidN emN n, of demoAuth 50 51 50]
  have c1: "updateSalon (Some adminCaller) transferToNobody None demoAuth 50 51 demoWorld =
        (Inl (HttpsError NotFound
               (''User with email '' @ ''nobody@x.com'' @ '' not found. Please ensure the user exists.'')),
         console_error ''Error looking up new owner by email:'' demoWorld)"
    and c4: "fst (addSalon (Some adminCaller) salonForNobody None ''s2'' 50 demoWorld)
        = Inr (''s2'', ''Salon added successfully!'')"
    and c5: "fieldAt (db (snd (addSalon (Some adminCaller) salonForNobody None ''s2'' 50 demoWorld)))
        (getSalonsCollectionPath (envAppId None) @ ''/'' @ ''s2'') ''ownerId''
        = Some (JStr ''nobody@x.com'')"
    by (simp_all add: demoAuth_def)
  from t [OF sidN emN n, of failingAuth 50 51 50]
  have c2: "updateSalon (Some adminCaller) transferToNobody None failingAuth 50 51 demoWorld =
        (Inl (HttpsError Internal ''Failed to verify new owner email.''),
         console_error ''Error looking up new owner by email:'' demoWorld)"
    by (simp add: failingAuth_def)
  from t [OF sidO emO ol, of demoAuth 50 51 50] okO
  have c3: "fieldAt (db (snd (updateSalon (Some adminCaller) transferToOlga None demoAuth 50 51 demoWorld)))
        (getSalonsCollectionPath (envAppId None) @ ''/'' @ ''s1'') ''ownerId'' = Some (JStr ''o1'')"
    by (simp add: demoAuth_def split: prod.splits sum.splits)
  from admin sidN sidO s1 emN n emO ol emA v1 v2 v3 free c1 c2 c3 c4 c5
  show ?thesis by (intro conjI)
qed

text \<open>
  The claim as stated fails for \<open>addSalon\<close>: no account has the email
  \<open>nobody@x.com\<close>, yet the call succeeds and the new salon's \<open>ownerId\<close> is the email.
\<close>

theorem addSalon_stores_email_counterexample:
  "getUserByEmail demoAuth ''nobody@x.com'' = Inl ''auth/user-not-found''
   \<and> fst (addSalon (Some adminCaller) salonForNobody None ''s2'' 50 demoWorld)
        = Inr (''s2'', ''Salon added successfully!'')
   \<and> fieldAt (db (snd (addSalon (Some adminCaller) salonForNobody None ''s2'' 50 demoWorld)))
        (getSalonsCollectionPath ''default-app-id'' @ ''/s2'') ''ownerId''
        = Some (JStr ''nobody@x.com'')"
  by code_simp

section \<open>The profile path of each handler\<close>





section \<open>searchUsersByEmail\<close>

lemma str_le_prefix:
  "str_le t e \<Longrightarrow> str_le e (t @ s) \<Longrightarrow> \<exists>rest. e = t @ rest"
proof (induction t arbitrary: e)
  case Nil
  then show ?case by simp
next
  case (Cons x xs)
  then obtain y ys where e: "e = y # ys" by (cases e) auto
  with Cons.prems have "x = y" by (auto split: if_splits)
  with Cons.prems e have "str_le xs ys" "str_le ys (xs @ s)" by auto
  from Cons.IH [OF this] obtain rest where "ys = xs @ rest" ..
  with e \<open>x = y\<close> show ?case by simp
qed

lemma set_insertEntry: "set (insertEntry a bs) = insert a (set bs)"
  by (induction bs) auto

lemma set_orderByEmail: "set (orderByEmail xs) = set xs"
  by (induction xs) (auto simp add: set_insertEntry)

lemma emailPrefixQuery_length: "length (emailPrefixQuery s st) \<le> 10"
  by (simp add: emailPrefixQuery_def)

lemma emailPrefixQuery_member:
  assumes "e \<in> set (emailPrefixQuery s st)"
  shows "e \<in> set st \<and> inCollectionGroup ''profile'' (fst e)
           \<and> (\<exists>rest. snd e ''email'' = Some (JStr (s @ rest)))"
proof -
  from assms have "e \<in> set (orderByEmail
       (filter (\<lambda>e. emailInRange s (s @ sentinel) (snd e)) (collectionGroup ''profile'' st)))"
    unfolding emailPrefixQuery_def by (rule in_set_takeD)
  then have m: "e \<in> set st" "inCollectionGroup ''profile'' (fst e)"
    and r: "emailInRange s (s @ sentinel) (snd e)"
    by (simp_all add: set_orderByEmail collectionGroup_def)
  from r obtain em where em: "snd e ''email'' = Some (JStr em)"
      "str_le s em" "str_le em (s @ sentinel)"
    by (auto simp add: emailInRange_def split: option.splits jv.splits)
  from str_le_prefix [OF em(2) em(3)] em(1) m show ?thesis by auto
qed

lemma dom_suggestion: "dom (suggestion d) \<subseteq> {''uid'', ''email'', ''displayName''}"
  by (auto simp add: suggestion_def split: if_splits)

text \<open>
  Claim C10.  For a caller who passes the administrator check: a search term of fewer than
  two characters (\<open>searchTerm.length < 2\<close>) is answered with the empty list, whatever the
  store holds, and the world is unchanged.  Any longer term is answered with a list of at
  most ten records; every record has an \<open>email\<close> that is a string starting with the term,
  has no key besides \<open>uid\<close>, \<open>email\<close> and \<open>displayName\<close>, and is the projection of a stored
  profile document: its \<open>uid\<close> and \<open>email\<close> are the document's, and its \<open>displayName\<close> is the
  document's when that is truthy and the document's \<open>email\<close> otherwise.
\<close>

theorem searchUsersByEmail_results:
  assumes admin: "assertAdmin auth (envAppId env) (db w) = Inr ()"
  shows "(if js_length s < 2 then searchUsersByEmail auth (Some (JStr s)) env w = (Inr [], w)
          else (\<exists>rs. searchUsersByEmail auth (Some (JStr s)) env w = (Inr rs, w)
                 \<and> length rs \<le> 10
                 \<and> (\<forall>r \<in> set rs.
                       (\<exists>rest. r ''email'' = Some (JStr (s @ rest)))
                     \<and> dom r \<subseteq> {''uid'', ''email'', ''displayName''}
                     \<and> (\<exists>p d. (p, d) \<in> set (db w) \<and> inCollectionGroup ''profile'' p
                           \<and> r ''uid'' = d ''uid'' \<and> r ''email'' = d ''email''
                           \<and> r ''displayName'' =
                               (if truthy (d ''displayName'') then d ''displayName''
                                else d ''email'')))))"
proof (cases "js_length s < 2")
  case True
  then show ?thesis using admin by (simp add: searchUsersByEmail_def)
next
  case False
  let ?rs = "map (\<lambda>e. suggestion (snd e)) (emailPrefixQuery s (db w))"
  have run: "searchUsersByEmail auth (Some (JStr s)) env w = (Inr ?rs, w)"
    using False admin by (simp add: searchUsersByEmail_def)
  have len: "length ?rs \<le> 10" by (simp add: emailPrefixQuery_length)
  have each: "(\<exists>rest. r ''email'' = Some (JStr (s @ rest)))
            \<and> dom r \<subseteq> {''uid'', ''email'', ''displayName''}
            \<and> (\<exists>p d. (p, d) \<in> set (db w) \<and> inCollectionGroup ''profile'' p
                  \<and> r ''uid'' = d ''uid'' \<and> r ''email'' = d ''email''
                  \<and> r ''displayName'' =
                      (if truthy (d ''displayName'') then d ''displayName'' else d ''email''))"
    if "r \<in> set ?rs" for r
  proof -
    from that obtain e where e: "e \<in> set (emailPrefixQuery s (db w))"
      and r: "r = suggestion (snd e)"
      by auto
    from emailPrefixQuery_member [OF e] obtain rest where
      m: "e \<in> set (db w)" "inCollectionGroup ''profile'' (fst e)"
      and em: "snd e ''email'' = Some (JStr (s @ rest))" by blast
    have 1: "\<exists>rest. r ''email'' = Some (JStr (s @ rest))"
      using em by (simp add: r suggestion_def)
    have 2: "dom r \<subseteq> {''uid'', ''email'', ''displayName''}"
      unfolding r by (rule dom_suggestion)
    have 3: "(fst e, snd e) \<in> set (db w) \<and> inCollectionGroup ''profile'' (fst e)
                  \<and> r ''uid'' = snd e ''uid'' \<and> r ''email'' = snd e ''email''
                  \<and> r ''displayName'' =
                      (if truthy (snd e ''displayName'') then snd e ''displayName''
                       else snd e ''email'')"
      using m by (simp add: r suggestion_def js_or_undef_def)
    from 1 2 3 show ?thesis by blast
  qed
  from run len each False show ?thesis by auto
qed

theorem searchUsersByEmail_results_witness:
  "assertAdmin (Some adminCaller) (envAppId None) (db demoWorld) = Inr ()
   \<and> js_length ''o'' < 2
   \<and> searchUsersByEmail (Some adminCaller) (Some (JStr ''o'')) None demoWorld = (Inr [], demoWorld)
   \<and> 2 \<le> js_length ''ol''
   \<and> (\<exists>rs. searchUsersByEmail (Some adminCaller) (Some (JStr ''ol'')) None demoWorld
              = (Inr rs, demoWorld)
          \<and> length rs \<le> 10
          \<and> (\<forall>r \<in> set rs.
                (\<exists>rest. r ''email'' = Some (JStr (''ol'' @ rest)))
              \<and> dom r \<subseteq> {''uid'', ''email'', ''displayName''}
              \<and> (\<exists>p d. (p, d) \<in> set (db demoWorld) \<and> inCollectionGroup ''profile'' p
                    \<and> r ''uid'' = d ''uid'' \<and> r ''email'' = d ''email''
                    \<and> r ''displayName'' =
                        (if truthy (d ''displayName'') then d ''displayName''
                         else d ''email''))))
   \<and> (case fst (searchUsersByEmail (Some adminCaller) (Some (JStr ''ol'')) None demoWorld) of
         Inl e \<Rightarrow> []
       | Inr rs \<Rightarrow> map (\<lambda>r. (r ''uid'', r ''email'', r ''displayName'')) rs)
      = [(Some (JStr ''o1''), Some (JStr ''olga@x.com''), Some (JStr ''Olga''))]"
proof -
  have admin: "assertAdmin (Some adminCaller) (envAppId None) (db demoWorld) = Inr ()"
    by (simp add: assertAdmin_def adminCaller_def demoWorld_def envAppId_def docGet_def
        getUserProfilePath_def)
  have short: "js_length ''o'' < 2" by code_simp
  have long: "2 \<le> js_length ''ol''" by code_simp
  from searchUsersByEmail_results [OF admin, of "''o''"] short
  have c1: "searchUsersByEmail (Some adminCaller) (Some (JStr ''o'')) None demoWorld
              = (Inr [], demoWorld)"
    by simp
  from long have n: "(js_length ''ol'' < 2) = False" by simp
  from searchUsersByEmail_results [OF admin, of "''ol''"]
  have c2: "\<exists>rs. searchUsersByEmail (Some adminCaller) (Some (JStr ''ol'')) None demoWorld
              = (Inr rs, demoWorld)
          \<and> length rs \<le> 10
          \<and> (\<forall>r \<in> set rs.
                (\<exists>rest. r ''email'' = Some (JStr (''ol'' @ rest)))
              \<and> dom r \<subseteq> {''uid'', ''email'', ''displayName''}
              \<and> (\<exists>p d. (p, d) \<in> set (db demoWorld) \<and> inCollectionGroup ''profile'' p
                    \<and> r ''uid'' = d ''uid'' \<and> r ''email'' = d ''email''
                    \<and> r ''displayName'' =
                        (if truthy (d ''displayName'') then d ''displayName''
                         else d ''email'')))"
    by (simp only: n if_False)
  have c3: "(case fst (searchUsersByEmail (Some adminCaller) (Some (JStr ''ol'')) None demoWorld) of
         Inl e \<Rightarrow> []
       | Inr rs \<Rightarrow> map (\<lambda>r. (r ''uid'', r ''email'', r ''displayName'')) rs)
      = [(Some (JStr ''o1''), Some (JStr ''olga@x.com''), Some (JStr ''Olga''))]"
    by code_simp
  from admin short c1 long c2 c3 show ?thesis by (intro conjI)
qed


section \<open>updateSalon: running the same request again\<close>

lemma ownerProfileStep_result:
  "\<exists>st1 d. ownerProfileStep appId oid oe t st = Some st1
     \<and> (\<forall>q. q \<noteq> getUserProfilePath appId oid \<longrightarrow> docGet st1 q = docGet st q)
     \<and> docGet st1 (getUserProfilePath appId oid) = Some d \<and> d ''role'' \<noteq> Some (JStr ''user'')
     \<and> (\<forall>d0. docGet st (getUserProfilePath appId oid) = Some d0
            \<longrightarrow> d0 ''role'' \<noteq> Some (JStr ''user'') \<longrightarrow> st1 = st)"
proof (cases "docGet st (getUserProfilePath appId oid)")
  case None
  then show ?thesis
    by (simp add: ownerProfileStep_def docSetMerge_def docGet_def AList.update_conv')
next
  case (Some d0)
  show ?thesis
  proof (cases "d0 ''role'' = Some (JStr ''user'')")
    case True
    with Some show ?thesis
      by (simp add: ownerProfileStep_def docUpdate_present docGet_docSet)
  next
    case False
    with Some show ?thesis
      by (simp add: ownerProfileStep_def)
  qed
qed

lemma updateData_replay:
  "(m ++ updateData data oid tS) ++ updateData data oid tS'
     = (m ++ updateData data oid tS)(''updatedAt'' \<mapsto> JTime tS')"
  by (rule ext) (auto simp add: updateData_def map_add_def split: option.splits)

lemma updateData_stamp: "(m ++ updateData data oid tS) ''updatedAt'' = Some (JTime tS)"
  by (simp add: updateData_def map_add_def)

text \<open>The store after the owner step, and what the step does when it is run again.\<close>

lemma owner_phase:
  "\<exists>st1. (if truthy_str ownerId
            then ownerProfileStep appId (str_val ownerId) oe tP st
            else Some st) = Some st1
     \<and> (\<forall>u. u \<noteq> str_val ownerId
            \<longrightarrow> docGet st1 (getUserProfilePath appId u) = docGet st (getUserProfilePath appId u))
     \<and> (\<forall>sid. docGet st1 (getSalonsCollectionPath appId @ ''/'' @ sid)
                = docGet st (getSalonsCollectionPath appId @ ''/'' @ sid))
     \<and> (\<forall>d0. docGet st (getUserProfilePath appId (str_val ownerId)) = Some d0
            \<longrightarrow> d0 ''role'' = Some (JStr ''admin'') \<longrightarrow> st1 = st)
     \<and> (\<forall>st' tP'. docGet st' (getUserProfilePath appId (str_val ownerId))
                      = docGet st1 (getUserProfilePath appId (str_val ownerId))
           \<longrightarrow> (if truthy_str ownerId
                 then ownerProfileStep appId (str_val ownerId) oe tP' st'
                 else Some st') = Some st')"
proof (cases "truthy_str ownerId")
  case False
  then show ?thesis by simp
next
  case True
  from ownerProfileStep_result [of appId "str_val ownerId" oe tP st]
  obtain st1 d where s: "ownerProfileStep appId (str_val ownerId) oe tP st = Some st1"
    and o: "\<forall>q. q \<noteq> getUserProfilePath appId (str_val ownerId) \<longrightarrow> docGet st1 q = docGet st q"
    and g: "docGet st1 (getUserProfilePath appId (str_val ownerId)) = Some d"
      "d ''role'' \<noteq> Some (JStr ''user'')"
    and n: "\<forall>d0. docGet st (getUserProfilePath appId (str_val ownerId)) = Some d0
              \<longrightarrow> d0 ''role'' \<noteq> Some (JStr ''user'') \<longrightarrow> st1 = st"
    by blast
  have 1: "\<forall>u. u \<noteq> str_val ownerId
            \<longrightarrow> docGet st1 (getUserProfilePath appId u) = docGet st (getUserProfilePath appId u)"
    using o by (simp add: profile_path_inj)
  have 2: "\<forall>sid. docGet st1 (getSalonsCollectionPath appId @ ''/'' @ sid)
                = docGet st (getSalonsCollectionPath appId @ ''/'' @ sid)"
    using o profile_ne_salon [of appId "str_val ownerId"] by metis
  have 3: "\<forall>d0. docGet st (getUserProfilePath appId (str_val ownerId)) = Some d0
            \<longrightarrow> d0 ''role'' = Some (JStr ''admin'') \<longrightarrow> st1 = st"
    using n by auto
  have 4: "\<forall>st' tP'. docGet st' (getUserProfilePath appId (str_val ownerId))
                      = docGet st1 (getUserProfilePath appId (str_val ownerId))
           \<longrightarrow> (if truthy_str ownerId
                 then ownerProfileStep appId (str_val ownerId) oe tP' st'
                 else Some st') = Some st'"
    using True g by (simp add: ownerProfileStep_settled)
  from True s 1 2 3 4 show ?thesis by simp
qed

lemma updateSalon_try_replay:
  assumes run: "updateSalon_try appId data ownerId tP tS w = (r1, w1)"
  shows "fst (updateSalon_try appId data ownerId tP' tS' w1) = r1 \<and>
         (db (snd (updateSalon_try appId data ownerId tP' tS' w1)) = db w1
          \<or> (\<exists>d. docGet (db w1) (getSalonsCollectionPath appId @ ''/'' @ str_val (us_id data)) = Some d
                \<and> d ''updatedAt'' = Some (JTime tS)
                \<and> db (snd (updateSalon_try appId data ownerId tP' tS' w1))
                    = docSet (getSalonsCollectionPath appId @ ''/'' @ str_val (us_id data))
                        (d(''updatedAt'' \<mapsto> JTime tS')) (db w1)))"
proof -
  let ?s = "getSalonsCollectionPath appId @ ''/'' @ str_val (us_id data)"
  let ?po = "getUserProfilePath appId (str_val ownerId)"
  from owner_phase [of ownerId appId "us_ownerEmail data" tP "db w"]
  obtain st1 where s1: "(if truthy_str ownerId
            then ownerProfileStep appId (str_val ownerId) (us_ownerEmail data) tP (db w)
            else Some (db w)) = Some st1"
    and again: "\<And>st' tP'. docGet st' ?po = docGet st1 ?po
           \<Longrightarrow> (if truthy_str ownerId
            then ownerProfileStep appId (str_val ownerId) (us_ownerEmail data) tP' st'
            else Some st') = Some st'"
    by blast
  show ?thesis
  proof (cases "invalidDocPath ?s")
    case True
    with run have r: "r1 = Inl (HttpsError Internal ''Failed to update salon.'')"
      and w: "db w1 = db w"
      by (auto simp add: updateSalon_try_def Let_def console_error_def)
    from True r show ?thesis
      by (simp add: updateSalon_try_def Let_def console_error_def)
  next
    case valid: False
  show ?thesis
  proof (cases "docGet st1 ?s")
    case None
    then have u: "docUpdate ?s f st1 = None" for f by (rule docUpdate_absent)
    from run s1 u valid have r: "r1 = Inl (HttpsError Internal ''Failed to update salon.'')"
      and w: "db w1 = st1"
      by (auto simp add: updateSalon_try_def Let_def console_error_def)
    have "(if truthy_str ownerId
            then ownerProfileStep appId (str_val ownerId) (us_ownerEmail data) tP' (db w1)
            else Some (db w1)) = Some (db w1)"
      by (rule again) (simp add: w)
    then show ?thesis
      using u r w valid by (simp add: updateSalon_try_def Let_def console_error_def)
  next
    case (Some old)
    let ?d = "old ++ updateData data ownerId tS"
    from Some have u: "docUpdate ?s (updateData data ownerId tS) st1 = Some (docSet ?s ?d st1)"
      by (rule docUpdate_present)
    from run s1 u valid have r: "r1 = Inr ''Salon updated successfully!''"
      and w: "db w1 = docSet ?s ?d st1"
      by (auto simp add: updateSalon_try_def Let_def)
    have g: "docGet (db w1) ?s = Some ?d" by (simp add: w docGet_docSet)
    have "docGet (db w1) ?po = docGet st1 ?po"
      by (simp add: w docGet_docSet profile_ne_salon')
    then have p: "(if truthy_str ownerId
            then ownerProfileStep appId (str_val ownerId) (us_ownerEmail data) tP' (db w1)
            else Some (db w1)) = Some (db w1)"
      by (rule again)
    have u2: "docUpdate ?s (updateData data ownerId tS') (db w1)
        = Some (docSet ?s (?d(''updatedAt'' \<mapsto> JTime tS')) (db w1))"
      using docUpdate_present [OF g, of "updateData data ownerId tS'"]
      by (simp add: updateData_replay)
    have st: "?d ''updatedAt'' = Some (JTime tS)" by (rule updateData_stamp)
    show ?thesis
      using p u2 r g st valid by (simp add: updateSalon_try_def Let_def)
  qed
  qed
qed

lemma updateSalon_try_admin:
  assumes adm: "assertAdmin auth appId (db w) = Inr ()"
  shows "assertAdmin auth appId (db (snd (updateSalon_try appId data ownerId tP tS w))) = Inr ()"
proof -
  from adm obtain a d where a: "auth = Some a"
    and d: "docGet (db w) (getUserProfilePath appId (auth_uid a)) = Some d"
      "d ''role'' = Some (JStr ''admin'')"
    by (auto simp add: assertAdmin_def split: option.splits if_splits)
  from owner_phase [of ownerId appId "us_ownerEmail data" tP "db w"]
  obtain st1 where s1: "(if truthy_str ownerId
            then ownerProfileStep appId (str_val ownerId) (us_ownerEmail data) tP (db w)
            else Some (db w)) = Some st1"
    and others: "\<And>u. u \<noteq> str_val ownerId
        \<Longrightarrow> docGet st1 (getUserProfilePath appId u) = docGet (db w) (getUserProfilePath appId u)"
    and keep: "\<And>d0. docGet (db w) (getUserProfilePath appId (str_val ownerId)) = Some d0
        \<Longrightarrow> d0 ''role'' = Some (JStr ''admin'') \<Longrightarrow> st1 = db w"
    by blast
  have c: "docGet st1 (getUserProfilePath appId (auth_uid a)) = Some d"
  proof (cases "auth_uid a = str_val ownerId")
    case True
    with keep [of d] d show ?thesis by simp
  next
    case False
    with others [of "auth_uid a"] d show ?thesis by simp
  qed
  have "docGet (db (snd (updateSalon_try appId data ownerId tP tS w)))
          (getUserProfilePath appId (auth_uid a)) = Some d"
  proof (cases "invalidDocPath (getSalonsCollectionPath appId @ ''/'' @ str_val (us_id data))")
    case True
    then show ?thesis using d
      by (simp add: updateSalon_try_def Let_def console_error_def)
  next
    case False
    then show ?thesis using s1 c
      by (auto simp add: updateSalon_try_def Let_def docUpdate_def docGet_def console_error_def
          AList.update_conv' profile_ne_salon' split: option.splits)
  qed
  then show ?thesis using a d by (simp add: assertAdmin_def)
qed

lemma updateSalon_replay_store:
  assumes first: "updateSalon auth data env authAdmin tP tS w = (r1, w1)"
    and again: "updateSalon auth data env authAdmin tP' tS' w1 = (r2, w2)"
  shows "r2 = r1
       \<and> (db w2 = db w1
          \<or> (\<exists>d. docGet (db w1) (getSalonsCollectionPath (envAppId env) @ ''/'' @ str_val (us_id data))
                    = Some d
                \<and> d ''updatedAt'' = Some (JTime tS)
                \<and> db w2 = docSet (getSalonsCollectionPath (envAppId env) @ ''/'' @ str_val (us_id data))
                        (d(''updatedAt'' \<mapsto> JTime tS')) (db w1)))"
proof -
  let ?appId = "envAppId env"
  let ?invalid = "falsy_str (us_id data)
             \<or> (falsy_str (us_name data) \<and> falsy (us_address data)
                  \<and> falsy_str (us_description data) \<and> falsy_str (us_ownerEmail data))"
  show ?thesis
  proof (cases "assertAdmin auth ?appId (db w)")
    case (Inl e)
    with first have "r1 = Inl e" "w1 = w" by (simp_all add: updateSalon_def Let_def)
    with again Inl show ?thesis by (simp add: updateSalon_def Let_def)
  next
    case (Inr u)
    then have adm: "assertAdmin auth ?appId (db w) = Inr ()" by simp
    show ?thesis
    proof (cases ?invalid)
      case True
      with first adm
      have "r1 = Inl (HttpsError InvalidArgument ''Missing salon ID or update fields.'')" "w1 = w"
        by (simp_all add: updateSalon_def Let_def del: falsy.simps falsy_str.simps)
      with again adm True show ?thesis
        by (simp add: updateSalon_def Let_def del: falsy.simps falsy_str.simps)
    next
      case False
      show ?thesis
      proof (cases "lookupOwner authAdmin (us_ownerEmail data)")
        case (Inl e)
        with first adm False have 1: "r1 = Inl e" "db w1 = db w"
          by (auto simp add: updateSalon_def Let_def console_error_def
              simp del: falsy.simps falsy_str.simps)
        with again adm False Inl show ?thesis
          by (auto simp add: updateSalon_def Let_def console_error_def
              simp del: falsy.simps falsy_str.simps)
      next
        case (Inr ownerId)
        with first adm False have t1: "updateSalon_try ?appId data ownerId tP tS w = (r1, w1)"
          by (simp add: updateSalon_def Let_def del: falsy.simps falsy_str.simps)
        from updateSalon_try_admin [OF adm, of data ownerId tP tS] t1
        have adm1: "assertAdmin auth ?appId (db w1) = Inr ()" by simp
        with again False Inr have t2: "updateSalon_try ?appId data ownerId tP' tS' w1 = (r2, w2)"
          by (simp add: updateSalon_def Let_def del: falsy.simps falsy_str.simps)
        from updateSalon_try_replay [OF t1, of tP' tS'] t2 show ?thesis by simp
      qed
    qed
  qed
qed

text \<open>
  Claim C9.  Run \<open>updateSalon\<close>, then run it again with the same caller, request,
  environment and identity provider, on the world the first run left.  The second run
  gives the same answer as the first and adds or removes no document.  It changes no
  document other than the salon's, and in the salon's document no field other than
  \<open>updatedAt\<close>, which takes the time of the second salon write: in particular the salon's
  \<open>ownerId\<close> is unchanged, and no profile's \<open>role\<close> changes.  When the two salon writes bear
  the same time, the store after the second run is the store after the first.
\<close>

theorem updateSalon_replay:
  assumes first: "updateSalon auth data env authAdmin tP tS w = (r1, w1)"
    and again: "updateSalon auth data env authAdmin tP' tS' w1 = (r2, w2)"
  shows "r2 = r1
       \<and> map fst (db w2) = map fst (db w1)
       \<and> (\<forall>q. q \<noteq> getSalonsCollectionPath (envAppId env) @ ''/'' @ str_val (us_id data)
              \<longrightarrow> docGet (db w2) q = docGet (db w1) q)
       \<and> (\<forall>k. k \<noteq> ''updatedAt''
              \<longrightarrow> fieldAt (db w2) (getSalonsCollectionPath (envAppId env) @ ''/'' @ str_val (us_id data)) k
                  = fieldAt (db w1) (getSalonsCollectionPath (envAppId env) @ ''/'' @ str_val (us_id data)) k)
       \<and> fieldAt (db w2) (getSalonsCollectionPath (envAppId env) @ ''/'' @ str_val (us_id data)) ''ownerId''
           = fieldAt (db w1) (getSalonsCollectionPath (envAppId env) @ ''/'' @ str_val (us_id data)) ''ownerId''
       \<and> (\<forall>u. fieldAt (db w2) (getUserProfilePath (envAppId env) u) ''role''
                = fieldAt (db w1) (getUserProfilePath (envAppId env) u) ''role'')
       \<and> (tS' = tS \<longrightarrow> db w2 = db w1)"
proof -
  let ?s = "getSalonsCollectionPath (envAppId env) @ ''/'' @ str_val (us_id data)"
  from updateSalon_replay_store [OF first again]
  have r: "r2 = r1"
    and d: "db w2 = db w1
          \<or> (\<exists>d. docGet (db w1) ?s = Some d \<and> d ''updatedAt'' = Some (JTime tS)
                \<and> db w2 = docSet ?s (d(''updatedAt'' \<mapsto> JTime tS')) (db w1))"
    by blast+
  from d show ?thesis
  proof
    assume "db w2 = db w1"
    with r show ?thesis by simp
  next
    assume "\<exists>d. docGet (db w1) ?s = Some d \<and> d ''updatedAt'' = Some (JTime tS)
                \<and> db w2 = docSet ?s (d(''updatedAt'' \<mapsto> JTime tS')) (db w1)"
    then obtain d where g: "docGet (db w1) ?s = Some d"
      and st: "d ''updatedAt'' = Some (JTime tS)"
      and e: "db w2 = docSet ?s (d(''updatedAt'' \<mapsto> JTime tS')) (db w1)"
      by blast
    have 1: "map fst (db w2) = map fst (db w1)"
      using g by (simp add: e keys_docSet)
    have 2: "\<forall>q. q \<noteq> ?s \<longrightarrow> docGet (db w2) q = docGet (db w1) q"
      by (simp add: e docGet_docSet)
    have f: "fieldAt (db w1) ?s k = d k" for k
      using g by (simp add: fieldAt_def)
    have 3: "\<forall>k. k \<noteq> ''updatedAt'' \<longrightarrow> fieldAt (db w2) ?s k = fieldAt (db w1) ?s k"
      unfolding e fieldAt_docSet f by simp
    have 4: "fieldAt (db w2) ?s ''ownerId'' = fieldAt (db w1) ?s ''ownerId''"
      unfolding e fieldAt_docSet f by simp
    have 5: "\<forall>u. fieldAt (db w2) (getUserProfilePath (envAppId env) u) ''role''
                = fieldAt (db w1) (getUserProfilePath (envAppId env) u) ''role''"
      by (simp add: e fieldAt_docSet profile_ne_salon')
    have 6: "tS' = tS \<longrightarrow> db w2 = db w1"
    proof
      assume "tS' = tS"
      with st have "d(''updatedAt'' \<mapsto> JTime tS') = d" by (simp add: map_upd_triv)
      with g show "db w2 = db w1" by (simp add: e docSet_same)
    qed
    from r 1 2 3 4 5 6 show ?thesis by (intro conjI)
  qed
qed


theorem updateSalon_replay_witness:
  "updateSalon (Some adminCaller) transferToNina None demoAuth 50 51 demoWorld
     = (fst (updateSalon (Some adminCaller) transferToNina None demoAuth 50 51 demoWorld),
        snd (updateSalon (Some adminCaller) transferToNina None demoAuth 50 51 demoWorld))
   \<and> updateSalon (Some adminCaller) transferToNina None demoAuth 60 61
          (snd (updateSalon (Some adminCaller) transferToNina None demoAuth 50 51 demoWorld))
     = (fst (updateSalon (Some adminCaller) transferToNina None demoAuth 60 61
          (snd (updateSalon (Some adminCaller) transferToNina None demoAuth 50 51 demoWorld))),
        snd (updateSalon (Some adminCaller) transferToNina None demoAuth 60 61
          (snd (updateSalon (Some adminCaller) transferToNina None demoAuth 50 51 demoWorld))))
   \<and> updateSalon (Some adminCaller) transferToNina None demoAuth 60 51
          (snd (updateSalon (Some adminCaller) transferToNina None demoAuth 50 51 demoWorld))
     = (fst (updateSalon (Some adminCaller) transferToNina None demoAuth 60 51
          (snd (updateSalon (Some adminCaller) transferToNina None demoAuth 50 51 demoWorld))),
        snd (updateSalon (Some adminCaller) transferToNina None demoAuth 60 51
          (snd (updateSalon (Some adminCaller) transferToNina None demoAuth 50 51 demoWorld))))
   \<and> fst (updateSalon (Some adminCaller) transferToNina None demoAuth 50 51 demoWorld)
     = Inr ''Salon updated successfully!''
   \<and> fieldAt (db demoWorld) (getUserProfilePath ''default-app-id'' ''n1'') ''role'' = None
   \<and> fieldAt (db (snd (updateSalon (Some adminCaller) transferToNina None demoAuth 50 51 demoWorld)))
        (getUserProfilePath ''default-app-id'' ''n1'') ''role'' = Some (JStr ''salon'')
   \<and> fieldAt (db (snd (updateSalon (Some adminCaller) transferToNina None demoAuth 60 61
          (snd (updateSalon (Some adminCaller) transferToNina None demoAuth 50 51 demoWorld)))))
        (getSalonsCollectionPath ''default-app-id'' @ ''/s1'') ''updatedAt'' = Some (JTime 61)
   \<and> fst (updateSalon (Some adminCaller) transferToNina None demoAuth 60 61
          (snd (updateSalon (Some adminCaller) transferToNina None demoAuth 50 51 demoWorld)))
     = fst (updateSalon (Some adminCaller) transferToNina None demoAuth 50 51 demoWorld)
   \<and> map fst (db (snd (updateSalon (Some adminCaller) transferToNina None demoAuth 60 61
          (snd (updateSalon (Some adminCaller) transferToNina None demoAuth 50 51 demoWorld)))))
     = map fst (db (snd (updateSalon (Some adminCaller) transferToNina None demoAuth 50 51 demoWorld)))
   \<and> fieldAt (db (snd (updateSalon (Some adminCaller) transferToNina None demoAuth 60 61
          (snd (updateSalon (Some adminCaller) transferToNina None demoAuth 50 51 demoWorld)))))
        (getSalonsCollectionPath (envAppId None) @ ''/'' @ str_val (us_id transferToNina)) ''ownerId''
     = fieldAt (db (snd (updateSalon (Some adminCaller) transferToNina None demoAuth 50 51 demoWorld)))
        (getSalonsCollectionPath (envAppId None) @ ''/'' @ str_val (us_id transferToNina)) ''ownerId''
   \<and> (\<forall>u. fieldAt (db (snd (updateSalon (Some adminCaller) transferToNina None demoAuth 60 61
          (snd (updateSalon (Some adminCaller) transferToNina None demoAuth 50 51 demoWorld)))))
            (getUserProfilePath (envAppId None) u) ''role''
          = fieldAt (db (snd (updateSalon (Some adminCaller) transferToNina None demoAuth 50 51 demoWorld)))
            (getUserProfilePath (envAppId None) u) ''role'')
   \<and> db (snd (updateSalon (Some adminCaller) transferToNina None demoAuth 60 51
          (snd (updateSalon (Some adminCaller) transferToNina None demoAuth 50 51 demoWorld))))
     = db (snd (updateSalon (Some adminCaller) transferToNina None demoAuth 50 51 demoWorld))"
proof -
  let ?X1 = "updateSalon (Some adminCaller) transferToNina None demoAuth 50 51 demoWorld"
  let ?X2 = "updateSalon (Some adminCaller) transferToNina None demoAuth 60 61 (snd ?X1)"
  let ?X3 = "updateSalon (Some adminCaller) transferToNina None demoAuth 60 51 (snd ?X1)"
  have h1: "?X1 = (fst ?X1, snd ?X1)" and h2: "?X2 = (fst ?X2, snd ?X2)"
    and h3: "?X3 = (fst ?X3, snd ?X3)"
    by simp_all
  have e1: "fst ?X1 = Inr ''Salon updated successfully!''" by code_simp
  have e2: "fieldAt (db demoWorld) (getUserProfilePath ''default-app-id'' ''n1'') ''role'' = None"
    by code_simp
  have e3: "fieldAt (db (snd ?X1)) (getUserProfilePath ''default-app-id'' ''n1'') ''role''
              = Some (JStr ''salon'')"
    by code_simp
  have e4: "fieldAt (db (snd ?X2)) (getSalonsCollectionPath ''default-app-id'' @ ''/s1'') ''updatedAt''
              = Some (JTime 61)"
    by code_simp
  note t2 = updateSalon_replay [OF h1 h2]
  from t2 have c1: "fst ?X2 = fst ?X1" by (rule conjunct1)
  from t2 have c2: "map fst (db (snd ?X2)) = map fst (db (snd ?X1))" by blast
  from t2 have c3: "fieldAt (db (snd ?X2)) (getSalonsCollectionPath (envAppId None) @ ''/'' @ str_val (us_id transferToNina)) ''ownerId''
     = fieldAt (db (snd ?X1)) (getSalonsCollectionPath (envAppId None) @ ''/'' @ str_val (us_id transferToNina)) ''ownerId''"
    by blast
  from t2 have c4: "\<forall>u. fieldAt (db (snd ?X2)) (getUserProfilePath (envAppId None) u) ''role''
          = fieldAt (db (snd ?X1)) (getUserProfilePath (envAppId None) u) ''role''"
    by blast
  from updateSalon_replay [OF h1 h3] have c5: "db (snd ?X3) = db (snd ?X1)" by blast
  from h1 h2 h3 e1 e2 e3 e4 c1 c2 c3 c4 c5 show ?thesis by (intro conjI)
qed

end
